theory Spec2Isabelle
  imports Complex_Main "HOL-Library.AList" "HOL-Library.Stream"
begin

section \<open>Gym management system: the indexed entity store and its snapshot persistence\<close>

text \<open>
  A shallow embedding of the Python packages \<^verbatim>\<open>gym.gym\<close>, \<^verbatim>\<open>gym.pricing\<close>,
  \<^verbatim>\<open>gym.memberships\<close>, \<^verbatim>\<open>gym.people\<close>, \<^verbatim>\<open>gym.payments\<close>, \<^verbatim>\<open>gym.workouts\<close> and
  \<^verbatim>\<open>gym.storage\<close>. Conventions:

  \<^item> A method that mutates its object is a function from the object to a pair of the
    outcome and the object afterwards; the outcome is \<open>Inl\<close> of the exception raised or
    \<open>Inr\<close> of the value returned. An exception does not undo mutations made before it.
  \<^item> A Python \<^verbatim>\<open>dict\<close> is an association list in insertion order with distinct keys:
    \<open>map_of\<close> reads it, \<open>AList.update\<close> is item assignment (in place for an old key, at
    the end for a new one), \<open>AList.delete\<close> is \<^verbatim>\<open>pop\<close> of a key that is present.
  \<^item> The values drawn from \<^verbatim>\<open>uuid4().hex\<close>, \<^verbatim>\<open>datetime.now()\<close> and \<^verbatim>\<open>date.today()\<close>
    come from a \<open>world\<close> of three streams, threaded through every function that draws;
    all theorems hold for every world.
  \<^item> A \<^verbatim>\<open>float\<close> is modelled as a \<open>real\<close>: order and equality of finite floats are
    those of the reals; rounding error, infinities and NaN are not modelled. The
    built-in \<^verbatim>\<open>round\<close>, whose result depends on the binary float, is not defined: it is
    a parameter of the functions that call it.
  \<^item> Strings are ASCII text.
  \<^item> The modules are taken as loaded: what happens at import time is not modelled.
\<close>

subsection \<open>Strings\<close>

definition is_space :: "char \<Rightarrow> bool" where
  "is_space c = (let n = (of_char c :: nat) in (9 \<le> n \<and> n \<le> 13) \<or> (28 \<le> n \<and> n \<le> 32))"

definition strip :: "string \<Rightarrow> string" where
  "strip s = rev (dropWhile is_space (rev (dropWhile is_space s)))"

text \<open>
  In ASCII a letter's upper and lower case differ in the bit of value 32 (the sixth
  argument of \<open>Char\<close>, which lists the bits from the lowest).
\<close>

definition lower_char :: "char \<Rightarrow> char" where
  "lower_char c =
     (if 65 \<le> (of_char c :: nat) \<and> (of_char c :: nat) \<le> 90 then
        (case c of Char b0 b1 b2 b3 b4 b5 b6 b7 \<Rightarrow> Char b0 b1 b2 b3 b4 True b6 b7)
      else c)"

definition upper_char :: "char \<Rightarrow> char" where
  "upper_char c =
     (if 97 \<le> (of_char c :: nat) \<and> (of_char c :: nat) \<le> 122 then
        (case c of Char b0 b1 b2 b3 b4 b5 b6 b7 \<Rightarrow> Char b0 b1 b2 b3 b4 False b6 b7)
      else c)"

definition is_alpha :: "char \<Rightarrow> bool" where
  "is_alpha c = (let n = (of_char c :: nat) in (65 \<le> n \<and> n \<le> 90) \<or> (97 \<le> n \<and> n \<le> 122))"

definition lower :: "string \<Rightarrow> string" where
  "lower s = map lower_char s"

text \<open>\<^verbatim>\<open>str.title()\<close>: a letter after a letter is lower-cased, any other letter upper-cased.\<close>

fun title_from :: "bool \<Rightarrow> string \<Rightarrow> string" where
  "title_from prev [] = []"
| "title_from prev (c # cs) =
     (if is_alpha c then (if prev then lower_char c else upper_char c) # title_from True cs
      else c # title_from False cs)"

definition str_title :: "string \<Rightarrow> string" where
  "str_title s = title_from False s"

subsection \<open>gym.gym: errors, enumerations, identifiers\<close>

text \<open>
  The exception classes the code raises or lets through. \<open>ValidationError\<close> and
  \<open>NotFoundError\<close> carry the static text of their message (interpolated values and
  quotation marks left out); the others are Python's built-in classes and
  \<^verbatim>\<open>json.JSONDecodeError\<close>. \<open>Unmodelled\<close> is no exception: it marks the one place
  (\<open>trainer_from_dict\<close>) where the source goes on with a value that the types of this
  model do not hold.
\<close>

datatype error =
    ValidationError string
  | NotFoundError string
  | TypeError
  | AttributeError
  | KeyError
  | ValueError
  | JSONDecodeError
  | UnicodeDecodeError
  | Unmodelled

fun is_ValidationError :: "error \<Rightarrow> bool" where
  "is_ValidationError (ValidationError msg) = True"
| "is_ValidationError e = False"

fun is_NotFoundError :: "error \<Rightarrow> bool" where
  "is_NotFoundError (NotFoundError msg) = True"
| "is_NotFoundError e = False"

datatype MembershipStatus = ACTIVE | PAUSED | CANCELLED

fun MembershipStatus_value :: "MembershipStatus \<Rightarrow> string" where
  "MembershipStatus_value ACTIVE = ''active''"
| "MembershipStatus_value PAUSED = ''paused''"
| "MembershipStatus_value CANCELLED = ''cancelled''"

datatype PaymentStatus = SUCCESS | FAILED

fun PaymentStatus_value :: "PaymentStatus \<Rightarrow> string" where
  "PaymentStatus_value SUCCESS = ''success''"
| "PaymentStatus_value FAILED = ''failed''"

datatype date = Date string
datatype datetime = DateTime string

text \<open>A date and a datetime are represented by the text \<^verbatim>\<open>isoformat()\<close> renders them as.\<close>

fun date_isoformat :: "date \<Rightarrow> string" where
  "date_isoformat (Date s) = s"

fun datetime_isoformat :: "datetime \<Rightarrow> string" where
  "datetime_isoformat (DateTime s) = s"

record world =
  uuids :: "string stream"
  nows :: "datetime stream"
  todays :: "date stream"

text \<open>
  A computation that may draw from the world and may raise: \<open>Inl\<close> of the exception, or
  \<open>Inr\<close> of the value and the world afterwards. \<open>and_then\<close> is the sequencing of two
  statements, \<open>lift\<close> embeds a computation that draws nothing. The draws of a call
  that raises are not kept: where a function returns a world next to an exception, it
  is the world before the call that raised.
\<close>

type_synonym 'a comp = "world \<Rightarrow> error + ('a \<times> world)"

definition ret :: "'a \<Rightarrow> 'a comp" where
  "ret x w = Inr (x, w)"

definition raise :: "error \<Rightarrow> 'a comp" where
  "raise e w = Inl e"

definition and_then :: "'a comp \<Rightarrow> ('a \<Rightarrow> 'b comp) \<Rightarrow> 'b comp" where
  "and_then m f w = (case m w of Inl e \<Rightarrow> Inl e | Inr (x, w') \<Rightarrow> f x w')"

definition lift :: "error + 'a \<Rightarrow> 'a comp" where
  "lift r w = (case r of Inl e \<Rightarrow> Inl e | Inr x \<Rightarrow> Inr (x, w))"

definition then_pure :: "error + 'a \<Rightarrow> ('a \<Rightarrow> error + 'b) \<Rightarrow> error + 'b" where
  "then_pure r f = (case r of Inl e \<Rightarrow> Inl e | Inr x \<Rightarrow> f x)"

definition uuid4_hex :: "string comp" where
  "uuid4_hex w = Inr (shd (uuids w), w\<lparr>uuids := stl (uuids w)\<rparr>)"

definition datetime_now :: "datetime comp" where
  "datetime_now w = Inr (shd (nows w), w\<lparr>nows := stl (nows w)\<rparr>)"

definition date_today :: "date comp" where
  "date_today w = Inr (shd (todays w), w\<lparr>todays := stl (todays w)\<rparr>)"

definition new_id :: "string \<Rightarrow> string comp" where
  "new_id prefix =
     (if prefix = [] \<or> strip prefix = [] then
        raise (ValidationError ''Prefix must be a non empty string.'')
      else and_then uuid4_hex (\<lambda>h. ret (prefix @ ''_'' @ h)))"

subsection \<open>Dynamically typed values\<close>

text \<open>
  The values \<^verbatim>\<open>json.load\<close> produces, which the decoders of \<^verbatim>\<open>gym.storage\<close> pass on
  unchecked to the constructors: a constructor parameter that can receive one is typed
  \<open>json\<close>, and a string method called on a value that is not a string raises
  AttributeError.
\<close>

datatype json =
    JNull
  | JBool bool
  | JInt int
  | JFloat real
  | JStr string
  | JList "json list"
  | JDict "(string \<times> json) list"

text \<open>Python's truth value of an object (\<^verbatim>\<open>not x\<close> is its negation).\<close>

fun truthy :: "json \<Rightarrow> bool" where
  "truthy JNull = False"
| "truthy (JBool b) = b"
| "truthy (JInt n) = (n \<noteq> 0)"
| "truthy (JFloat r) = (r \<noteq> 0)"
| "truthy (JStr s) = (s \<noteq> [])"
| "truthy (JList xs) = (xs \<noteq> [])"
| "truthy (JDict kvs) = (kvs \<noteq> [])"

text \<open>\<^verbatim>\<open>x.strip()\<close> on a dynamically typed value.\<close>

fun method_strip :: "json \<Rightarrow> error + string" where
  "method_strip (JStr s) = Inr (strip s)"
| "method_strip v = Inl AttributeError"

text \<open>The condition \<^verbatim>\<open>not x or not x.strip()\<close>, with its short circuit.\<close>

definition not_or_blank :: "json \<Rightarrow> error + bool" where
  "not_or_blank v =
     (if \<not> truthy v then Inr True
      else then_pure (method_strip v) (\<lambda>s. Inr (s = [])))"

subsection \<open>gym.pricing\<close>

datatype PricePolicy = NoDiscount | PercentOff real | FixedPrice real

definition PercentOff_init :: "real \<Rightarrow> error + PricePolicy" where
  "PercentOff_init discount =
     (if \<not> (0 < discount \<and> discount < 1) then
        Inl (ValidationError ''Discount must be between 0 and 1, For Example: 20% Discount is 0.20'')
      else Inr (PercentOff discount))"

definition FixedPrice_init :: "real \<Rightarrow> error + PricePolicy" where
  "FixedPrice_init price =
     (if \<not> price > 0 then Inl (ValidationError ''Price must be greater than $0.'')
      else Inr (FixedPrice price))"

fun apply_policy :: "PricePolicy \<Rightarrow> real \<Rightarrow> real" where
  "apply_policy NoDiscount base_price = base_price"
| "apply_policy (PercentOff discount) base_price = base_price * (1 - discount)"
| "apply_policy (FixedPrice price) base_price = price"

subsection \<open>gym.memberships\<close>

datatype membership_class = BasicMembership | PremiumMembership

record BaseMembership =
  ms_class :: membership_class
  ms_id :: string
  ms_status :: MembershipStatus
  ms_price_policy :: PricePolicy

text \<open>The dataclass constructor followed by \<^verbatim>\<open>__post_init__\<close>.\<close>

definition BaseMembership_init :: "membership_class \<Rightarrow> PricePolicy \<Rightarrow> BaseMembership comp" where
  "BaseMembership_init cls policy =
     and_then (new_id ''ms'') (\<lambda>i.
     ret \<lparr>ms_class = cls, ms_id = i, ms_status = ACTIVE, ms_price_policy = policy\<rparr>)"

fun membership_name :: "membership_class \<Rightarrow> string" where
  "membership_name BasicMembership = ''Basic''"
| "membership_name PremiumMembership = ''Premium''"

fun base_monthly_price :: "membership_class \<Rightarrow> real" where
  "base_monthly_price BasicMembership = 2999 / 100"
| "base_monthly_price PremiumMembership = 5999 / 100"

text \<open>
  \<^verbatim>\<open>round(x, 2)\<close> rounds the binary float \<open>x\<close> to the float nearest to a multiple of
  1/100, which is no function of the real that stands for \<open>x\<close> here. It is therefore the
  parameter \<open>round2\<close> of \<open>monthly_price\<close> and of the functions that call it; the
  theorems hold for every function \<open>round2\<close>.
\<close>

definition monthly_price :: "(real \<Rightarrow> real) \<Rightarrow> BaseMembership \<Rightarrow> real" where
  "monthly_price round2 m =
     round2 (apply_policy (ms_price_policy m) (base_monthly_price (ms_class m)))"

definition is_active :: "BaseMembership \<Rightarrow> bool" where
  "is_active m = (ms_status m = ACTIVE)"

definition pause :: "BaseMembership \<Rightarrow> (error + unit) \<times> BaseMembership" where
  "pause m =
     (if ms_status m = CANCELLED then
        (Inl (ValidationError ''Cannot pause a cancelled membership.''), m)
      else (Inr (), m\<lparr>ms_status := PAUSED\<rparr>))"

definition resume :: "BaseMembership \<Rightarrow> (error + unit) \<times> BaseMembership" where
  "resume m =
     (if ms_status m = CANCELLED then
        (Inl (ValidationError ''Cannot resume a cancelled membership.''), m)
      else (Inr (), m\<lparr>ms_status := ACTIVE\<rparr>))"

definition cancel :: "BaseMembership \<Rightarrow> (error + unit) \<times> BaseMembership" where
  "cancel m = (Inr (), m\<lparr>ms_status := CANCELLED\<rparr>)"

subsection \<open>gym.people\<close>

text \<open>
  \<^verbatim>\<open>Person.__post_init__\<close>: the identifier drawn for the person, then the validated and
  stripped name and email.
\<close>

definition Person_post_init :: "json \<Rightarrow> json \<Rightarrow> (string \<times> string \<times> string) comp" where
  "Person_post_init full_name email =
     and_then (new_id ''per'') (\<lambda>i.
     and_then (lift (not_or_blank full_name)) (\<lambda>no_name.
     if no_name then raise (ValidationError ''Name field cannot be empty.'')
     else and_then (lift (method_strip full_name)) (\<lambda>full_name'.
     and_then (lift (not_or_blank email)) (\<lambda>no_email.
     if no_email then raise (ValidationError ''Email must be provided.'')
     else and_then (lift (method_strip email)) (\<lambda>email'.
     if CHR ''@'' \<notin> set email' \<or> CHR ''.'' \<notin> set email' then
       raise (ValidationError ''Please enter a valid email.'')
     else ret (i, full_name', email'))))))"

record Member =
  m_id :: string
  m_full_name :: string
  m_email :: string
  m_membership :: BaseMembership
  m_join_date :: date

text \<open>
  \<^verbatim>\<open>Member(full_name=..., email=..., membership=..., join_date=...)\<close>: the dataclass
  constructor fills a missing \<open>join_date\<close> from \<^verbatim>\<open>date.today()\<close>, then runs
  \<^verbatim>\<open>__post_init__\<close>. The membership is typed, so the \<^verbatim>\<open>isinstance\<close> test passes.
\<close>

definition Member_init :: "json \<Rightarrow> json \<Rightarrow> BaseMembership \<Rightarrow> date option \<Rightarrow> Member comp" where
  "Member_init full_name email membership join_date =
     and_then (case join_date of None \<Rightarrow> date_today | Some d \<Rightarrow> ret d) (\<lambda>d.
     and_then (Person_post_init full_name email) (\<lambda>(i, full_name', email').
     and_then (new_id ''mem'') (\<lambda>i'.
     ret \<lparr>m_id = i', m_full_name = full_name', m_email = email',
          m_membership = membership, m_join_date = d\<rparr>)))"

definition Member_is_active :: "Member \<Rightarrow> bool" where
  "Member_is_active m = is_active (m_membership m)"

definition Member_monthly_price :: "(real \<Rightarrow> real) \<Rightarrow> Member \<Rightarrow> real" where
  "Member_monthly_price round2 m = monthly_price round2 (m_membership m)"

definition cancel_membership :: "Member \<Rightarrow> (error + unit) \<times> Member" where
  "cancel_membership m =
     (case cancel (m_membership m) of (r, ms) \<Rightarrow> (r, m\<lparr>m_membership := ms\<rparr>))"

definition pause_membership :: "Member \<Rightarrow> (error + unit) \<times> Member" where
  "pause_membership m =
     (case pause (m_membership m) of (r, ms) \<Rightarrow> (r, m\<lparr>m_membership := ms\<rparr>))"

record Trainer =
  t_id :: string
  t_full_name :: string
  t_email :: string
  t_specialty :: "string option"

definition Trainer_init :: "json \<Rightarrow> json \<Rightarrow> json \<Rightarrow> Trainer comp" where
  "Trainer_init full_name email specialty =
     and_then (Person_post_init full_name email) (\<lambda>(i, full_name', email').
     and_then (new_id ''trn'') (\<lambda>i'.
     if specialty \<noteq> JNull then
       and_then (lift (method_strip specialty)) (\<lambda>stripped.
       if stripped = [] then raise (ValidationError ''Speciality cannot be just empty space.'')
       else (case specialty of
               JStr s \<Rightarrow> ret \<lparr>t_id = i', t_full_name = full_name', t_email = email',
                              t_specialty = Some (str_title s)\<rparr>
             | _ \<Rightarrow> raise AttributeError))
     else ret \<lparr>t_id = i', t_full_name = full_name', t_email = email', t_specialty = None\<rparr>))"

subsection \<open>gym.payments\<close>

record PaymentRecord =
  pr_id :: string
  pr_member_id :: string
  pr_member_name :: string
  pr_amount :: real
  pr_status :: PaymentStatus
  pr_message :: string
  pr_created_at :: datetime

text \<open>
  The class is declared \<^verbatim>\<open>@dataclass(frozen=True, init=False)\<close> and defines no
  \<^verbatim>\<open>__init__\<close>, so no constructor taking the fields exists: the call
  \<^verbatim>\<open>cls(id=..., member_id=..., ...)\<close> that ends \<^verbatim>\<open>PaymentRecord.create\<close> evaluates its
  arguments (an identifier and the time are drawn) and then raises TypeError. The
  record type stands for the instances the other functions take as arguments.
\<close>

definition PaymentRecord_create ::
    "string \<Rightarrow> string \<Rightarrow> real \<Rightarrow> PaymentStatus \<Rightarrow> string \<Rightarrow> PaymentRecord comp" where
  "PaymentRecord_create member_id member_name amount status message =
     (if member_id = [] \<or> strip member_id = [] then
        raise (ValidationError ''Member id cannot be empty'')
      else if member_name = [] \<or> strip member_name = [] then
        raise (ValidationError ''Member cannot be empty.'')
      else if amount < 0 then raise (ValidationError ''Amount cannot be less than 0.'')
      else if message = [] \<or> strip message = [] then
        raise (ValidationError ''Message cannot be empty.'')
      else
        and_then (new_id ''pay'') (\<lambda>i.
        and_then datetime_now (\<lambda>now.
        raise TypeError)))"

record FakePaymentProcessor =
  fail_threshold :: "real option"

text \<open>
  The class declares \<open>fail_threshold\<close> as a class attribute with value \<^verbatim>\<open>None\<close> and no
  constructor: \<^verbatim>\<open>FakePaymentProcessor()\<close> is the only call that builds an instance, and a
  call with an argument raises TypeError. The argument of the call, when there is one,
  is the parameter here.
\<close>

fun FakePaymentProcessor_init :: "json option \<Rightarrow> error + FakePaymentProcessor" where
  "FakePaymentProcessor_init None = Inr \<lparr>fail_threshold = None\<rparr>"
| "FakePaymentProcessor_init (Some arg) = Inl TypeError"

definition charge :: "FakePaymentProcessor \<Rightarrow> string \<Rightarrow> string \<Rightarrow> real \<Rightarrow> PaymentRecord comp" where
  "charge p member_id member_name amount =
     (if fail_threshold p \<noteq> None \<and> amount > the (fail_threshold p) then
        PaymentRecord_create member_id member_name amount FAILED
          ''Simulated Failure, amount exceeds threshold''
      else
        PaymentRecord_create member_id member_name amount SUCCESS
          ''Payment sucessfully processed'')"

record InMemoryPaymentLedger =
  records :: "PaymentRecord list"

definition ledger_add :: "InMemoryPaymentLedger \<Rightarrow> PaymentRecord \<Rightarrow> (error + unit) \<times> InMemoryPaymentLedger" where
  "ledger_add l record = (Inr (), l\<lparr>records := records l @ [record]\<rparr>)"

definition list_all_for_member :: "InMemoryPaymentLedger \<Rightarrow> string \<Rightarrow> PaymentRecord list" where
  "list_all_for_member l member_id = filter (\<lambda>r. pr_member_id r = member_id) (records l)"

definition total_success_for_member :: "InMemoryPaymentLedger \<Rightarrow> string \<Rightarrow> real" where
  "total_success_for_member l member_id =
     sum_list (map pr_amount
       (filter (\<lambda>r. pr_member_id r = member_id \<and> pr_status r = SUCCESS) (records l)))"

definition total_success_for_all :: "InMemoryPaymentLedger \<Rightarrow> real" where
  "total_success_for_all l =
     sum_list (map pr_amount (filter (\<lambda>r. pr_status r = SUCCESS) (records l)))"

subsection \<open>gym.workouts\<close>

record Exercise =
  ex_name :: string
  ex_sets :: int
  ex_reps :: int
  ex_load :: "real option"
  ex_notes :: "string option"

definition Exercise_init ::
    "string \<Rightarrow> int \<Rightarrow> int \<Rightarrow> real option \<Rightarrow> string option \<Rightarrow> error + Exercise" where
  "Exercise_init name sets reps load notes =
     (let n = lower (strip name) in
      if n = [] then Inl (ValidationError ''Exercise name cannot be empty.'')
      else if sets \<le> 0 then Inl (ValidationError ''Sets must be >= 1'')
      else if reps \<le> 0 then Inl (ValidationError ''Reps must be >= 1'')
      else if load \<noteq> None \<and> the load < 0 then Inl (ValidationError ''Load cannot be negative.'')
      else Inr \<lparr>ex_name = n, ex_sets = sets, ex_reps = reps, ex_load = load,
                ex_notes = (case notes of None \<Rightarrow> None
                            | Some t \<Rightarrow> if strip t = [] then None else Some (strip t))\<rparr>)"

record WorkoutPlan =
  wp_member_id :: string
  wp_title :: string
  wp_id :: string
  wp_created_at :: datetime
  wp_exercises :: "Exercise list"

definition WorkoutPlan_init :: "json \<Rightarrow> json \<Rightarrow> WorkoutPlan comp" where
  "WorkoutPlan_init member_id title =
     and_then (lift (not_or_blank member_id)) (\<lambda>no_member.
     if no_member then raise (ValidationError ''member_id cannot be empty.'')
     else and_then (lift (method_strip member_id)) (\<lambda>member_id'.
     and_then (lift (not_or_blank title)) (\<lambda>no_title.
     if no_title then raise (ValidationError ''title cannot be left empty.'')
     else and_then (lift (method_strip title)) (\<lambda>title'.
     and_then (new_id ''wkp'') (\<lambda>i.
     and_then datetime_now (\<lambda>now.
     ret \<lparr>wp_member_id = member_id', wp_title = title', wp_id = i, wp_created_at = now,
          wp_exercises = []\<rparr>))))))"

definition add_exercise :: "WorkoutPlan \<Rightarrow> Exercise \<Rightarrow> (error + unit) \<times> WorkoutPlan" where
  "add_exercise plan exercise = (Inr (), plan\<lparr>wp_exercises := wp_exercises plan @ [exercise]\<rparr>)"

definition remove_exercise_by_number :: "WorkoutPlan \<Rightarrow> int \<Rightarrow> (error + unit) \<times> WorkoutPlan" where
  "remove_exercise_by_number plan num =
     (if num < 1 \<or> num > int (length (wp_exercises plan)) then
        (Inl (ValidationError ''Exercise number out of range.''), plan)
      else (Inr (), plan\<lparr>wp_exercises :=
              take (nat (num - 1)) (wp_exercises plan) @ drop (nat num) (wp_exercises plan)\<rparr>))"

record WorkoutCatalog =
  plans :: "(string \<times> WorkoutPlan) list"
  plans_by_member :: "(string \<times> string list) list"

text \<open>\<^verbatim>\<open>d.setdefault(k, []).append(v)\<close> on a dict of lists.\<close>

definition setdefault_append :: "(string \<times> string list) list \<Rightarrow> string \<Rightarrow> string \<Rightarrow> (string \<times> string list) list" where
  "setdefault_append d k v =
     (case map_of d k of
        None \<Rightarrow> AList.update k [v] d
      | Some vs \<Rightarrow> AList.update k (vs @ [v]) d)"

definition add_plan :: "WorkoutCatalog \<Rightarrow> WorkoutPlan \<Rightarrow> (error + unit) \<times> WorkoutCatalog" where
  "add_plan cat plan =
     (if map_of (plans cat) (wp_id plan) \<noteq> None then
        (Inl (ValidationError ''This plan already exists in the system.''), cat)
      else
        (Inr (), cat\<lparr>plans := AList.update (wp_id plan) plan (plans cat),
                     plans_by_member :=
                       setdefault_append (plans_by_member cat) (wp_member_id plan) (wp_id plan)\<rparr>))"

definition get_plan :: "WorkoutCatalog \<Rightarrow> string \<Rightarrow> error + WorkoutPlan" where
  "get_plan cat plan_id =
     (case map_of (plans cat) plan_id of
        None \<Rightarrow> Inl (ValidationError ''Plan with  does not exist in the system.'')
      | Some plan \<Rightarrow> Inr plan)"

definition list_all_plans_for_member :: "WorkoutCatalog \<Rightarrow> string \<Rightarrow> WorkoutPlan list" where
  "list_all_plans_for_member cat member_id =
     (let plans_ids = (case map_of (plans_by_member cat) member_id of None \<Rightarrow> [] | Some ids \<Rightarrow> ids)
      in map (\<lambda>pid. the (map_of (plans cat) pid))
           (filter (\<lambda>pid. map_of (plans cat) pid \<noteq> None) plans_ids))"

text \<open>
  \<^verbatim>\<open>remove_plan\<close>. After the pop, the source reads \<^verbatim>\<open>self.plans.get(member_id_key)\<close>, the
  primary map at the member's id. When that is \<^verbatim>\<open>None\<close> it raises; when it is a plan,
  the test \<^verbatim>\<open>plan_id not in plan_ids\<close> is applied to a \<open>WorkoutPlan\<close>, which is not a
  container, and raises TypeError. The function body ends there: no statement touches
  \<open>plans_by_member\<close>.
\<close>

definition remove_plan :: "WorkoutCatalog \<Rightarrow> string \<Rightarrow> (error + unit) \<times> WorkoutCatalog" where
  "remove_plan cat plan_id =
     (case map_of (plans cat) plan_id of
        None \<Rightarrow> (Inl (ValidationError ''This plan does not exist in the system.''), cat)
      | Some plan \<Rightarrow>
          (let member_id_key = wp_member_id plan;
               cat' = cat\<lparr>plans := AList.delete plan_id (plans cat)\<rparr>
           in case map_of (plans cat') member_id_key of
                None \<Rightarrow>
                  (Inl (ValidationError ''Workout index in consistent: member key missing.''), cat')
              | Some plan_ids \<Rightarrow> (Inl TypeError, cat')))"

subsection \<open>gym.gym: the aggregate\<close>

record Gym =
  g_name :: string
  members :: "(string \<times> Member) list"
  trainers :: "(string \<times> Trainer) list"
  members_by_email :: "(string \<times> string) list"
  trainers_by_email :: "(string \<times> string) list"
  payment_processor :: FakePaymentProcessor
  payment_ledger :: InMemoryPaymentLedger
  workouts :: WorkoutCatalog

text \<open>\<^verbatim>\<open>Gym(name=...)\<close>: every other field takes its default.\<close>

definition Gym_init :: "json \<Rightarrow> error + Gym" where
  "Gym_init name =
     then_pure (not_or_blank name) (\<lambda>no_name.
     if no_name then Inl (ValidationError ''Gym name cannot be empty'')
     else (case name of
             JStr s \<Rightarrow>
               then_pure (FakePaymentProcessor_init None) (\<lambda>p.
               Inr \<lparr>g_name = s, members = [], trainers = [], members_by_email = [],
                    trainers_by_email = [], payment_processor = p,
                    payment_ledger = \<lparr>records = []\<rparr>,
                    workouts = \<lparr>plans = [], plans_by_member = []\<rparr>\<rparr>)
           | _ \<Rightarrow> Inl AttributeError))"

definition add_member :: "Gym \<Rightarrow> Member \<Rightarrow> (error + unit) \<times> Gym" where
  "add_member g member =
     (if ms_status (m_membership member) = CANCELLED then
        (Inl (ValidationError ''Cannot add a member with cancelled status.''), g)
      else if map_of (members g) (m_id member) \<noteq> None then
        (Inl (ValidationError ''This member already exists in the system.''), g)
      else
        (let email_key = strip (lower (m_email member)) in
         if map_of (members_by_email g) email_key \<noteq> None then
           (Inl (ValidationError ''Member with this email already exists in the system.''), g)
         else
           (Inr (), g\<lparr>members := AList.update (m_id member) member (members g),
                      members_by_email :=
                        AList.update email_key (m_id member) (members_by_email g)\<rparr>)))"

definition get_member :: "Gym \<Rightarrow> string \<Rightarrow> error + Member" where
  "get_member g member_id =
     (case map_of (members g) (strip member_id) of
        None \<Rightarrow> Inl (NotFoundError ''Member with  member id not found in the system.'')
      | Some member \<Rightarrow> Inr member)"

definition find_member_by_email :: "Gym \<Rightarrow> string \<Rightarrow> error + Member option" where
  "find_member_by_email g email =
     (let email_key = strip (lower email) in
      case map_of (members_by_email g) email_key of
        None \<Rightarrow> Inr None
      | Some member_id \<Rightarrow>
          (case map_of (members g) member_id of
             None \<Rightarrow> Inl KeyError
           | Some member \<Rightarrow> Inr (Some member)))"

definition remove_member :: "Gym \<Rightarrow> string \<Rightarrow> (error + unit) \<times> Gym" where
  "remove_member g member_id =
     (case map_of (members g) member_id of
        None \<Rightarrow> (Inl (NotFoundError ''This member does not exist in the system.''), g)
      | Some member \<Rightarrow>
          (let email_key = strip (lower (m_email member));
               g' = g\<lparr>members := AList.delete member_id (members g)\<rparr>
           in if map_of (members_by_email g') email_key = Some member_id then
                (Inr (), g'\<lparr>members_by_email := AList.delete email_key (members_by_email g')\<rparr>)
              else (Inl (ValidationError ''Inconsistent email index for member.''), g')))"

text \<open>
  The member found is the object stored in \<open>members\<close>, so a mutation of it is a
  mutation of the gym: the entry under the key looked up is replaced.
\<close>

definition cancel_member_membership :: "Gym \<Rightarrow> string \<Rightarrow> (error + unit) \<times> Gym" where
  "cancel_member_membership g member_id =
     (case get_member g member_id of
        Inl e \<Rightarrow> (Inl e, g)
      | Inr member \<Rightarrow>
          (case cancel_membership member of
             (r, member') \<Rightarrow>
               (r, g\<lparr>members := AList.update (strip member_id) member' (members g)\<rparr>)))"

definition Gym_pause_membership :: "Gym \<Rightarrow> string \<Rightarrow> (error + unit) \<times> Gym" where
  "Gym_pause_membership g member_id =
     (case get_member g member_id of
        Inl e \<Rightarrow> (Inl e, g)
      | Inr member \<Rightarrow>
          (case pause_membership member of
             (r, member') \<Rightarrow>
               (r, g\<lparr>members := AList.update (strip member_id) member' (members g)\<rparr>)))"

definition charge_member ::
    "(real \<Rightarrow> real) \<Rightarrow> Gym \<Rightarrow> string \<Rightarrow> real option \<Rightarrow> world
       \<Rightarrow> (error + PaymentRecord) \<times> Gym \<times> world" where
  "charge_member round2 g member_id amount w =
     (case get_member g member_id of
        Inl e \<Rightarrow> (Inl e, g, w)
      | Inr member \<Rightarrow>
          if \<not> Member_is_active member then
            (Inl (ValidationError ''Cannot charge an inactive member.''), g, w)
          else
            (let charge_amount = (case amount of None \<Rightarrow> Member_monthly_price round2 member
                                  | Some a \<Rightarrow> a)
             in if charge_amount < 0 then
                  (Inl (ValidationError ''Charge amount cannot be negative.''), g, w)
                else
                  (case charge (payment_processor g) (m_id member) (m_full_name member)
                          charge_amount w of
                     Inl e \<Rightarrow> (Inl e, g, w)
                   | Inr (record, w') \<Rightarrow>
                       (case ledger_add (payment_ledger g) record of
                          (Inl e, l) \<Rightarrow> (Inl e, g\<lparr>payment_ledger := l\<rparr>, w')
                        | (Inr u, l) \<Rightarrow> (Inr record, g\<lparr>payment_ledger := l\<rparr>, w')))))"

definition list_all_payments_for_member :: "Gym \<Rightarrow> string \<Rightarrow> error + PaymentRecord list" where
  "list_all_payments_for_member g member_id =
     then_pure (get_member g member_id) (\<lambda>member.
     Inr (list_all_for_member (payment_ledger g) member_id))"

definition total_paid_by_member :: "Gym \<Rightarrow> string \<Rightarrow> error + real" where
  "total_paid_by_member g member_id =
     then_pure (get_member g member_id) (\<lambda>member.
     Inr (total_success_for_member (payment_ledger g) member_id))"

definition total_revenue :: "Gym \<Rightarrow> real" where
  "total_revenue g = total_success_for_all (payment_ledger g)"

definition create_workout_plan ::
    "Gym \<Rightarrow> string \<Rightarrow> string \<Rightarrow> world \<Rightarrow> (error + WorkoutPlan) \<times> Gym \<times> world" where
  "create_workout_plan g member_id plan_title w =
     (case get_member g member_id of
        Inl e \<Rightarrow> (Inl e, g, w)
      | Inr member \<Rightarrow>
          (case WorkoutPlan_init (JStr (m_id member)) (JStr plan_title) w of
             Inl e \<Rightarrow> (Inl e, g, w)
           | Inr (plan, w') \<Rightarrow>
               (case add_plan (workouts g) plan of
                  (Inl e, cat) \<Rightarrow> (Inl e, g\<lparr>workouts := cat\<rparr>, w')
                | (Inr u, cat) \<Rightarrow> (Inr plan, g\<lparr>workouts := cat\<rparr>, w'))))"

definition list_plans_for_member :: "Gym \<Rightarrow> string \<Rightarrow> error + WorkoutPlan list" where
  "list_plans_for_member g member_id =
     then_pure (get_member g member_id) (\<lambda>member.
     Inr (list_all_plans_for_member (workouts g) (m_id member)))"

definition get_workout_plan :: "Gym \<Rightarrow> string \<Rightarrow> error + WorkoutPlan" where
  "get_workout_plan g plan_id = get_plan (workouts g) plan_id"

definition remove_workout_plan :: "Gym \<Rightarrow> string \<Rightarrow> (error + unit) \<times> Gym" where
  "remove_workout_plan g plan_id =
     (case remove_plan (workouts g) plan_id of (r, cat) \<Rightarrow> (r, g\<lparr>workouts := cat\<rparr>))"

definition add_trainer :: "Gym \<Rightarrow> Trainer \<Rightarrow> (error + unit) \<times> Gym" where
  "add_trainer g trainer =
     (if map_of (trainers g) (t_id trainer) \<noteq> None then
        (Inl (ValidationError ''This trainer already exists in the system.''), g)
      else
        (let email_key = strip (lower (t_email trainer)) in
         if map_of (trainers_by_email g) email_key \<noteq> None then
           (Inl (ValidationError ''Trainer with this email already exists in the system.''), g)
         else
           (Inr (), g\<lparr>trainers := AList.update (t_id trainer) trainer (trainers g),
                      trainers_by_email :=
                        AList.update email_key (t_id trainer) (trainers_by_email g)\<rparr>)))"

definition get_trainer :: "Gym \<Rightarrow> string \<Rightarrow> error + Trainer" where
  "get_trainer g trainer_id =
     (case map_of (trainers g) trainer_id of
        None \<Rightarrow> Inl (NotFoundError ''This trainer does not exist in the system.'')
      | Some trainer \<Rightarrow> Inr trainer)"

definition remove_trainer :: "Gym \<Rightarrow> string \<Rightarrow> (error + unit) \<times> Gym" where
  "remove_trainer g trainer_id =
     (case map_of (trainers g) trainer_id of
        None \<Rightarrow> (Inl (NotFoundError ''This trainer does not exist in the system.''), g)
      | Some trainer \<Rightarrow>
          (let email_key = strip (lower (t_email trainer));
               g' = g\<lparr>trainers := AList.delete trainer_id (trainers g)\<rparr>
           in if map_of (trainers_by_email g') email_key = Some trainer_id then
                (Inr (), g'\<lparr>trainers_by_email := AList.delete email_key (trainers_by_email g')\<rparr>)
              else (Inl (ValidationError ''Inconsistent email index for trainer.''), g')))"

subsection \<open>The dual-index invariant and runs of mutation operations\<close>

text \<open>
  One-to-one indexes (members and trainers by email): every id in the secondary index
  resolves in the primary map to an entity whose normalised email is the secondary key,
  and the normalised email of every primary entity is in the secondary index, at that
  entity's id.
\<close>

definition members_consistent :: "Gym \<Rightarrow> bool" where
  "members_consistent g =
     ((\<forall>(k, i) \<in> set (members_by_email g).
         case map_of (members g) i of None \<Rightarrow> False
         | Some m \<Rightarrow> strip (lower (m_email m)) = k)
      \<and> (\<forall>(i, m) \<in> set (members g).
         map_of (members_by_email g) (strip (lower (m_email m))) = Some i))"

definition trainers_consistent :: "Gym \<Rightarrow> bool" where
  "trainers_consistent g =
     ((\<forall>(k, i) \<in> set (trainers_by_email g).
         case map_of (trainers g) i of None \<Rightarrow> False
         | Some t \<Rightarrow> strip (lower (t_email t)) = k)
      \<and> (\<forall>(i, t) \<in> set (trainers g).
         map_of (trainers_by_email g) (strip (lower (t_email t))) = Some i))"

text \<open>
  One-to-many index (plans by member): every plan id in a member's list resolves in the
  primary map to a plan owned by that member, and every primary plan's id is in the
  list of its owner.
\<close>

definition plans_consistent :: "WorkoutCatalog \<Rightarrow> bool" where
  "plans_consistent cat =
     ((\<forall>(k, ids) \<in> set (plans_by_member cat). \<forall>i \<in> set ids.
         case map_of (plans cat) i of None \<Rightarrow> False
         | Some p \<Rightarrow> wp_member_id p = k)
      \<and> (\<forall>(i, p) \<in> set (plans cat).
         case map_of (plans_by_member cat) (wp_member_id p) of None \<Rightarrow> False
         | Some ids \<Rightarrow> i \<in> set ids))"

definition consistent :: "Gym \<Rightarrow> bool" where
  "consistent g =
     (members_consistent g \<and> trainers_consistent g \<and> plans_consistent (workouts g))"

datatype operation =
    AddMember Member
  | RemoveMember string
  | AddTrainer Trainer
  | RemoveTrainer string
  | CreateWorkoutPlan string string
  | RemoveWorkoutPlan string

text \<open>One call: the gym and world afterwards, whether it returned or raised.\<close>

fun perform :: "operation \<Rightarrow> Gym \<times> world \<Rightarrow> Gym \<times> world" where
  "perform (AddMember member) (g, w) = (snd (add_member g member), w)"
| "perform (RemoveMember member_id) (g, w) = (snd (remove_member g member_id), w)"
| "perform (AddTrainer trainer) (g, w) = (snd (add_trainer g trainer), w)"
| "perform (RemoveTrainer trainer_id) (g, w) = (snd (remove_trainer g trainer_id), w)"
| "perform (CreateWorkoutPlan member_id plan_title) (g, w) =
     snd (create_workout_plan g member_id plan_title w)"
| "perform (RemoveWorkoutPlan plan_id) (g, w) = (snd (remove_workout_plan g plan_id), w)"

definition run :: "operation list \<Rightarrow> Gym \<times> world \<Rightarrow> Gym \<times> world" where
  "run ops s = fold perform ops s"

subsection \<open>gym.storage: reading dynamically typed values\<close>

text \<open>
  The standard library functions whose results depend on text formats are parameters
  of the decoders: \<^verbatim>\<open>repr\<close> of a value that is not a string, \<^verbatim>\<open>float(s)\<close> and
  \<^verbatim>\<open>int(s)\<close> of a string (\<open>None\<close> where Python raises ValueError) and
  \<^verbatim>\<open>datetime.fromisoformat\<close> (likewise). Every theorem holds for all of them.
\<close>

record pylib =
  repr_of :: "json \<Rightarrow> string"
  float_of_str :: "string \<Rightarrow> real option"
  int_of_str :: "string \<Rightarrow> int option"
  fromisoformat :: "string \<Rightarrow> datetime option"

text \<open>\<^verbatim>\<open>str(x)\<close>.\<close>

definition py_str :: "pylib \<Rightarrow> json \<Rightarrow> string" where
  "py_str lib v = (case v of JStr s \<Rightarrow> s | _ \<Rightarrow> repr_of lib v)"

text \<open>\<^verbatim>\<open>float(x)\<close> and \<^verbatim>\<open>int(x)\<close> (which truncates a float towards zero).\<close>

fun py_float :: "pylib \<Rightarrow> json \<Rightarrow> error + real" where
  "py_float lib (JInt n) = Inr (of_int n)"
| "py_float lib (JFloat r) = Inr r"
| "py_float lib (JBool b) = Inr (if b then 1 else 0)"
| "py_float lib (JStr s) =
     (case float_of_str lib s of None \<Rightarrow> Inl ValueError | Some r \<Rightarrow> Inr r)"
| "py_float lib v = Inl TypeError"

fun py_int :: "pylib \<Rightarrow> json \<Rightarrow> error + int" where
  "py_int lib (JInt n) = Inr n"
| "py_int lib (JFloat r) = Inr (if 0 \<le> r then \<lfloor>r\<rfloor> else \<lceil>r\<rceil>)"
| "py_int lib (JBool b) = Inr (if b then 1 else 0)"
| "py_int lib (JStr s) =
     (case int_of_str lib s of None \<Rightarrow> Inl ValueError | Some n \<Rightarrow> Inr n)"
| "py_int lib v = Inl TypeError"

text \<open>\<^verbatim>\<open>isinstance(x, dict)\<close> and \<^verbatim>\<open>isinstance(x, list)\<close>.\<close>

fun is_dict :: "json \<Rightarrow> bool" where
  "is_dict (JDict d) = True"
| "is_dict v = False"

fun is_list :: "json \<Rightarrow> bool" where
  "is_list (JList xs) = True"
| "is_list v = False"

text \<open>
  \<^verbatim>\<open>x.get(k)\<close>, \<^verbatim>\<open>x.get(k, default)\<close> and \<^verbatim>\<open>x[k]\<close>. Only a dict has \<^verbatim>\<open>get\<close>; the
  subscript is only applied to dicts in this module.
\<close>

fun method_get :: "json \<Rightarrow> string \<Rightarrow> error + json" where
  "method_get (JDict d) k = Inr (case map_of d k of None \<Rightarrow> JNull | Some v \<Rightarrow> v)"
| "method_get v k = Inl AttributeError"

fun method_get_default :: "json \<Rightarrow> string \<Rightarrow> json \<Rightarrow> error + json" where
  "method_get_default (JDict d) k dflt = Inr (case map_of d k of None \<Rightarrow> dflt | Some v \<Rightarrow> v)"
| "method_get_default v k dflt = Inl AttributeError"

fun subscript :: "json \<Rightarrow> string \<Rightarrow> error + json" where
  "subscript (JDict d) k = (case map_of d k of None \<Rightarrow> Inl KeyError | Some v \<Rightarrow> Inr v)"
| "subscript v k = Inl TypeError"

text \<open>The condition \<^verbatim>\<open>not x or not str(x).strip()\<close>.\<close>

definition missing_or_blank :: "pylib \<Rightarrow> json \<Rightarrow> bool" where
  "missing_or_blank lib v = (\<not> truthy v \<or> strip (py_str lib v) = [])"

text \<open>
  The enumeration lookups \<^verbatim>\<open>MembershipStatus(x)\<close> and \<^verbatim>\<open>PaymentStatus(x)\<close>: the member
  whose value equals \<open>x\<close>, else ValueError.
\<close>

definition MembershipStatus_of :: "json \<Rightarrow> error + MembershipStatus" where
  "MembershipStatus_of v =
     (if v = JStr ''active'' then Inr ACTIVE
      else if v = JStr ''paused'' then Inr PAUSED
      else if v = JStr ''cancelled'' then Inr CANCELLED
      else Inl ValueError)"

definition PaymentStatus_of :: "string \<Rightarrow> error + PaymentStatus" where
  "PaymentStatus_of s =
     (if s = ''success'' then Inr SUCCESS
      else if s = ''failed'' then Inr FAILED
      else Inl ValueError)"

subsection \<open>gym.storage: price policies and memberships\<close>

text \<open>
  The encoders take typed objects, so their \<^verbatim>\<open>isinstance\<close> guards on the argument pass
  and they raise nothing.
\<close>

fun price_policy_to_dict :: "PricePolicy \<Rightarrow> json" where
  "price_policy_to_dict NoDiscount = JDict [(''type'', JStr ''no_discount'')]"
| "price_policy_to_dict (PercentOff discount) =
     JDict [(''type'', JStr ''percent_off''), (''discount'', JFloat discount)]"
| "price_policy_to_dict (FixedPrice price) =
     JDict [(''type'', JStr ''fixed_price''), (''price'', JFloat price)]"

definition price_policy_from_dict :: "pylib \<Rightarrow> json \<Rightarrow> error + PricePolicy" where
  "price_policy_from_dict lib data =
     then_pure (method_get data ''type'') (\<lambda>policy_type.
     if policy_type = JStr ''no_discount'' then Inr NoDiscount
     else if policy_type = JStr ''percent_off'' then
       then_pure (subscript data ''discount'') (\<lambda>v.
       then_pure (py_float lib v) PercentOff_init)
     else if policy_type = JStr ''fixed_price'' then
       then_pure (subscript data ''price'') (\<lambda>v.
       then_pure (py_float lib v) FixedPrice_init)
     else Inl (ValidationError ''Unknown policy type: ''))"

text \<open>
  \<^verbatim>\<open>isinstance\<close> against the classes of \<^verbatim>\<open>gym.memberships\<close>: both membership classes
  derive from \<open>BaseMembership\<close>, so every membership is an instance of it.
\<close>

definition isinstance_BaseMembership :: "BaseMembership \<Rightarrow> bool" where
  "isinstance_BaseMembership m = True"

definition isinstance_PremiumMembership :: "BaseMembership \<Rightarrow> bool" where
  "isinstance_PremiumMembership m = (ms_class m = PremiumMembership)"

text \<open>
  \<^verbatim>\<open>membership_to_dict\<close>: an \<^verbatim>\<open>if / elif / else\<close> chain whose first test is against
  \<open>BaseMembership\<close>. The \<^verbatim>\<open>else\<close> raises; the outcome is a sum for that branch.
\<close>

definition membership_to_dict :: "BaseMembership \<Rightarrow> error + json" where
  "membership_to_dict membership =
     then_pure
       (if isinstance_BaseMembership membership then Inr ''basic''
        else if isinstance_PremiumMembership membership then Inr ''premium''
        else Inl (ValidationError ''Unknown membership type: ''))
       (\<lambda>membership_type.
          Inr (JDict [(''type'', JStr membership_type),
                      (''status'', JStr (MembershipStatus_value (ms_status membership))),
                      (''price_policy'', price_policy_to_dict (ms_price_policy membership))]))"

definition membership_from_dict :: "pylib \<Rightarrow> json \<Rightarrow> BaseMembership comp" where
  "membership_from_dict lib data =
     and_then (lift (method_get data ''type'')) (\<lambda>membership_type.
     and_then (lift (method_get data ''status'')) (\<lambda>status_str.
     and_then (lift (method_get data ''price_policy'')) (\<lambda>policy_data.
     and_then (lift (price_policy_from_dict lib policy_data)) (\<lambda>policy.
     and_then
       (if membership_type = JStr ''basic'' then BaseMembership_init BasicMembership policy
        else if membership_type = JStr ''premium'' then
          BaseMembership_init PremiumMembership policy
        else raise (ValidationError ''Unknown membership type: ''))
       (\<lambda>membership.
     and_then (lift (MembershipStatus_of status_str)) (\<lambda>status.
     ret (membership\<lparr>ms_status := status\<rparr>)))))))"

subsection \<open>gym.storage: members and trainers\<close>

definition member_to_dict :: "Member \<Rightarrow> error + json" where
  "member_to_dict member =
     then_pure (membership_to_dict (m_membership member)) (\<lambda>ms.
     Inr (JDict [(''id'', JStr (m_id member)),
                 (''full_name'', JStr (m_full_name member)),
                 (''email'', JStr (m_email member)),
                 (''join_date'', JStr (date_isoformat (m_join_date member))),
                 (''membership'', ms)]))"

text \<open>
  \<^verbatim>\<open>member_from_dict\<close>. The email guard is the source's conjunction
  \<^verbatim>\<open>not email and not str(email).strip()\<close>. The call \<^verbatim>\<open>Member(...)\<close> passes no
  \<open>join_date\<close>: no statement of the function reads the key \<^verbatim>\<open>"join_date"\<close>.
\<close>

definition member_from_dict :: "pylib \<Rightarrow> json \<Rightarrow> Member comp" where
  "member_from_dict lib data =
     (if \<not> is_dict data then raise (ValidationError ''Member data must be a dictionary.'')
      else
        and_then (lift (method_get data ''full_name'')) (\<lambda>full_name.
        and_then (lift (method_get data ''email'')) (\<lambda>email.
        if missing_or_blank lib full_name then
          raise (ValidationError ''Member missing full name.'')
        else if \<not> truthy email \<and> strip (py_str lib email) = [] then
          raise (ValidationError ''Trainer missing email.'')
        else
          and_then (lift (subscript data ''membership'')) (\<lambda>membership_data.
          and_then (membership_from_dict lib membership_data) (\<lambda>membership.
          and_then (Member_init full_name email membership None) (\<lambda>member.
          and_then (lift (method_get data ''id'')) (\<lambda>stored_id.
          if truthy stored_id then ret (member\<lparr>m_id := py_str lib stored_id\<rparr>)
          else ret member)))))))"

definition trainer_to_dict :: "Trainer \<Rightarrow> json" where
  "trainer_to_dict trainer =
     JDict [(''id'', JStr (t_id trainer)),
            (''full_name'', JStr (t_full_name trainer)),
            (''email'', JStr (t_email trainer)),
            (''specialty'', (case t_specialty trainer of None \<Rightarrow> JNull | Some s \<Rightarrow> JStr s))]"

text \<open>
  \<^verbatim>\<open>trainer_from_dict\<close> assigns the stored id as it is (\<^verbatim>\<open>trainer.id = stored_id\<close>, with
  no \<^verbatim>\<open>str\<close>). A stored id that is truthy and not a string would make the trainer's id
  a value that is not a string: that is the outcome \<open>Unmodelled\<close>.
\<close>

definition trainer_from_dict :: "pylib \<Rightarrow> json \<Rightarrow> Trainer comp" where
  "trainer_from_dict lib data =
     (if \<not> is_dict data then raise (ValidationError ''Trainer data must be a dictionary.'')
      else
        and_then (lift (method_get data ''full_name'')) (\<lambda>full_name.
        and_then (lift (method_get data ''email'')) (\<lambda>email.
        if missing_or_blank lib full_name then
          raise (ValidationError ''Trainer full name missing.'')
        else if missing_or_blank lib email then
          raise (ValidationError ''Trainer email missing.'')
        else
          and_then (lift (method_get data ''specialty'')) (\<lambda>specialty.
          and_then (Trainer_init full_name email specialty) (\<lambda>trainer.
          and_then (lift (method_get data ''id'')) (\<lambda>stored_id.
          if truthy stored_id then
            (case stored_id of
               JStr s \<Rightarrow> ret (trainer\<lparr>t_id := s\<rparr>)
             | _ \<Rightarrow> raise Unmodelled)
          else ret trainer))))))"

subsection \<open>gym.storage: exercises, workout plans, the catalog\<close>

definition exercise_to_dict :: "Exercise \<Rightarrow> json" where
  "exercise_to_dict exercise =
     JDict [(''name'', JStr (ex_name exercise)),
            (''sets'', JInt (ex_sets exercise)),
            (''reps'', JInt (ex_reps exercise)),
            (''load'', (case ex_load exercise of None \<Rightarrow> JNull | Some x \<Rightarrow> JFloat x)),
            (''notes'', (case ex_notes exercise of None \<Rightarrow> JNull | Some t \<Rightarrow> JStr t))]"

text \<open>The arguments of \<^verbatim>\<open>Exercise(...)\<close> are evaluated in the order they are written.\<close>

definition exercise_from_dict :: "pylib \<Rightarrow> json \<Rightarrow> error + Exercise" where
  "exercise_from_dict lib data =
     (if \<not> is_dict data then Inl (ValidationError ''Exercise data must be a dictionary.'')
      else
        then_pure (method_get data ''name'') (\<lambda>name.
        if missing_or_blank lib name then Inl (ValidationError ''Exercise name missing.'')
        else
          then_pure (method_get_default data ''sets'' (JInt 0)) (\<lambda>sets_raw.
          then_pure (py_int lib sets_raw) (\<lambda>sets.
          then_pure (method_get_default data ''reps'' (JInt 0)) (\<lambda>reps_raw.
          then_pure (py_int lib reps_raw) (\<lambda>reps.
          then_pure (method_get data ''load'') (\<lambda>load_raw.
          then_pure (if load_raw = JNull then Inr None
                     else then_pure (subscript data ''load'') (\<lambda>v.
                          then_pure (py_float lib v) (\<lambda>x. Inr (Some x)))) (\<lambda>load.
          then_pure (method_get data ''notes'') (\<lambda>notes_raw.
          then_pure (if notes_raw = JNull then Inr None
                     else then_pure (subscript data ''notes'') (\<lambda>v.
                          Inr (Some (py_str lib v)))) (\<lambda>notes.
          Exercise_init (py_str lib name) sets reps load notes))))))))))"

definition workout_plan_to_dict :: "WorkoutPlan \<Rightarrow> json" where
  "workout_plan_to_dict plan =
     JDict [(''id'', JStr (wp_id plan)),
            (''member_id'', JStr (wp_member_id plan)),
            (''title'', JStr (wp_title plan)),
            (''created_at'', JStr (datetime_isoformat (wp_created_at plan))),
            (''exercises'', JList (map exercise_to_dict (wp_exercises plan)))]"

text \<open>The loop \<^verbatim>\<open>for ex in exercise_data: plan.add_exercise(exercise_from_dict(ex))\<close>.\<close>

fun add_decoded_exercises :: "pylib \<Rightarrow> json list \<Rightarrow> WorkoutPlan \<Rightarrow> error + WorkoutPlan" where
  "add_decoded_exercises lib [] plan = Inr plan"
| "add_decoded_exercises lib (ex # rest) plan =
     (case exercise_from_dict lib ex of
        Inl e \<Rightarrow> Inl e
      | Inr exercise \<Rightarrow>
          (case add_exercise plan exercise of
             (Inl e, plan') \<Rightarrow> Inl e
           | (Inr u, plan') \<Rightarrow> add_decoded_exercises lib rest plan'))"

text \<open>
  \<^verbatim>\<open>workout_plan_from_dict\<close>. The stored id is \<^verbatim>\<open>str(data.get("id"))\<close>, the text of
  \<^verbatim>\<open>None\<close> when the key is missing.
\<close>

definition workout_plan_from_dict :: "pylib \<Rightarrow> json \<Rightarrow> WorkoutPlan comp" where
  "workout_plan_from_dict lib data =
     (if \<not> is_dict data then
        raise (ValidationError ''Workout plan data must be a dictionary.'')
      else
        and_then (lift (method_get data ''member_id'')) (\<lambda>member_id.
        and_then (lift (method_get data ''title'')) (\<lambda>plan_title.
        if missing_or_blank lib member_id then
          raise (ValidationError ''WorkoutPlan missing member_id.'')
        else if missing_or_blank lib plan_title then
          raise (ValidationError ''WorkoutPlan missing title.'')
        else
          and_then (WorkoutPlan_init member_id plan_title) (\<lambda>plan0.
          and_then (lift (method_get data ''id'')) (\<lambda>id_raw.
          let stored_id = py_str lib id_raw;
              plan1 = (if stored_id \<noteq> [] then plan0\<lparr>wp_id := stored_id\<rparr> else plan0)
          in
          and_then (lift (method_get data ''created_at'')) (\<lambda>created_at.
          and_then
            (if truthy created_at then
               (case fromisoformat lib (py_str lib created_at) of
                  None \<Rightarrow> raise ValueError
                | Some t \<Rightarrow> ret (plan1\<lparr>wp_created_at := t\<rparr>))
             else ret plan1) (\<lambda>plan2.
          and_then (lift (method_get_default data ''exercises'' (JList []))) (\<lambda>exercise_data.
          (case exercise_data of
             JList exs \<Rightarrow> lift (add_decoded_exercises lib exs plan2)
           | _ \<Rightarrow> raise (ValidationError ''WorkoutPlan.exercises must be a list.''))))))))))"

definition workout_catalog_to_dict :: "WorkoutCatalog \<Rightarrow> json" where
  "workout_catalog_to_dict cat =
     JDict [(''plans'', JDict (map (\<lambda>(pid, plan). (pid, workout_plan_to_dict plan)) (plans cat)))]"

text \<open>
  The loop of \<^verbatim>\<open>workout_catalog_from_dict\<close>: each decoded plan is stored under its own
  id and its id appended to its owner's list.
\<close>

fun load_plans :: "pylib \<Rightarrow> (string \<times> json) list \<Rightarrow> WorkoutCatalog \<Rightarrow> WorkoutCatalog comp" where
  "load_plans lib [] cat w = Inr (cat, w)"
| "load_plans lib ((k, plan_data) # rest) cat w =
     (case workout_plan_from_dict lib plan_data w of
        Inl e \<Rightarrow> Inl e
      | Inr (plan, w') \<Rightarrow>
          load_plans lib rest
            (cat\<lparr>plans := AList.update (wp_id plan) plan (plans cat),
                 plans_by_member :=
                   setdefault_append (plans_by_member cat) (wp_member_id plan) (wp_id plan)\<rparr>)
            w')"

definition workout_catalog_from_dict :: "pylib \<Rightarrow> json \<Rightarrow> WorkoutCatalog comp" where
  "workout_catalog_from_dict lib data =
     (if \<not> is_dict data then
        raise (ValidationError ''WorkoutCatalog data must be a Dictionary.'')
      else
        and_then (lift (method_get_default data ''plans'' (JDict []))) (\<lambda>plans_data.
        (case plans_data of
           JDict items \<Rightarrow> load_plans lib items \<lparr>plans = [], plans_by_member = []\<rparr>
         | _ \<Rightarrow> raise (ValidationError ''WorkoutCatalog.plans must be a dictionary.''))))"

subsection \<open>gym.storage: payment records and the ledger\<close>

definition payment_record_to_dict :: "PaymentRecord \<Rightarrow> json" where
  "payment_record_to_dict record =
     JDict [(''id'', JStr (pr_id record)),
            (''member_id'', JStr (pr_member_id record)),
            (''member_name'', JStr (pr_member_name record)),
            (''amount'', JFloat (pr_amount record)),
            (''status'', JStr (PaymentStatus_value (pr_status record))),
            (''message'', JStr (pr_message record)),
            (''created_at'', JStr (datetime_isoformat (pr_created_at record)))]"

text \<open>
  \<^verbatim>\<open>payment_record_from_dict\<close>. The \<^verbatim>\<open>try\<close> around \<^verbatim>\<open>float(amount_raw)\<close> turns
  TypeError and ValueError, the only exceptions of \<open>py_float\<close>, into ValidationError.
\<close>

definition payment_record_from_dict :: "pylib \<Rightarrow> json \<Rightarrow> PaymentRecord comp" where
  "payment_record_from_dict lib data =
     (if \<not> is_dict data then raise (ValidationError ''PaymentRecord must be a Dictionary.'')
      else
        and_then (lift (method_get data ''member_id'')) (\<lambda>member_id.
        if missing_or_blank lib member_id then
          raise (ValidationError ''PaymentRecord missing member id.'')
        else
        and_then (lift (method_get data ''member_name'')) (\<lambda>member_name.
        if missing_or_blank lib member_name then
          raise (ValidationError ''PaymentRecord missing member_name.'')
        else
        and_then (lift (method_get data ''amount'')) (\<lambda>amount_raw.
        (case py_float lib amount_raw of
           Inl e \<Rightarrow> raise (ValidationError ''PaymentRecord amount must be a positive number.'')
         | Inr amount \<Rightarrow>
        if amount < 0 then
          raise (ValidationError ''PaymentRecord amount must be greater than 0.'')
        else
        and_then (lift (method_get data ''status'')) (\<lambda>status_str.
        if missing_or_blank lib status_str then
          raise (ValidationError ''PaymentRecord missing payment status'')
        else
        and_then (lift (PaymentStatus_of (py_str lib status_str))) (\<lambda>status.
        and_then (lift (method_get data ''message'')) (\<lambda>message.
        if missing_or_blank lib message then
          raise (ValidationError ''PaymentRecord missing message.'')
        else
        and_then (PaymentRecord_create (strip (py_str lib member_id))
                    (strip (py_str lib member_name)) amount status
                    (strip (py_str lib message))) (\<lambda>record0.
        and_then (lift (method_get data ''id'')) (\<lambda>stored_id.
        let record1 = (if truthy stored_id then record0\<lparr>pr_id := py_str lib stored_id\<rparr>
                       else record0)
        in
        and_then (lift (method_get data ''created_at'')) (\<lambda>created_at.
        if truthy created_at then
          (case fromisoformat lib (py_str lib created_at) of
             None \<Rightarrow> raise ValueError
           | Some t \<Rightarrow> ret (record1\<lparr>pr_created_at := t\<rparr>))
        else ret record1)))))))))))"

definition ledger_to_dict :: "InMemoryPaymentLedger \<Rightarrow> json" where
  "ledger_to_dict ledger =
     JDict [(''records'', JList (map payment_record_to_dict (records ledger)))]"

fun load_records :: "pylib \<Rightarrow> json list \<Rightarrow> InMemoryPaymentLedger \<Rightarrow> InMemoryPaymentLedger comp" where
  "load_records lib [] ledger w = Inr (ledger, w)"
| "load_records lib (rdata # rest) ledger w =
     (case payment_record_from_dict lib rdata w of
        Inl e \<Rightarrow> Inl e
      | Inr (record, w') \<Rightarrow>
          (case ledger_add ledger record of
             (Inl e, ledger') \<Rightarrow> Inl e
           | (Inr u, ledger') \<Rightarrow> load_records lib rest ledger' w'))"

definition ledger_from_dict :: "pylib \<Rightarrow> json \<Rightarrow> InMemoryPaymentLedger comp" where
  "ledger_from_dict lib data =
     (if \<not> is_dict data then
        raise (ValidationError ''InMemoryPaymentLedger data must be a Dictionary.'')
      else
        and_then (lift (method_get_default data ''records'' (JList []))) (\<lambda>records_data.
        (case records_data of
           JList rs \<Rightarrow> load_records lib rs \<lparr>records = []\<rparr>
         | _ \<Rightarrow> raise (ValidationError ''Ledger.records must be a list.''))))"

subsection \<open>gym.storage: the aggregate\<close>

text \<open>The dict comprehension over \<^verbatim>\<open>gym.members.items()\<close>.\<close>

fun members_to_items :: "(string \<times> Member) list \<Rightarrow> error + (string \<times> json) list" where
  "members_to_items [] = Inr []"
| "members_to_items ((mid, member) # rest) =
     then_pure (member_to_dict member) (\<lambda>d.
     then_pure (members_to_items rest) (\<lambda>ds. Inr ((mid, d) # ds)))"

definition gym_to_dict :: "Gym \<Rightarrow> error + json" where
  "gym_to_dict g =
     then_pure (members_to_items (members g)) (\<lambda>member_items.
     Inr (JDict
       [(''name'', JStr (g_name g)),
        (''members'', JDict member_items),
        (''trainers'', JDict (map (\<lambda>(tid, trainer). (tid, trainer_to_dict trainer)) (trainers g))),
        (''payment_processor'',
           JDict [(''type'', JStr ''fake''),
                  (''fail_threshold'',
                     (case fail_threshold (payment_processor g) of
                        None \<Rightarrow> JNull | Some t \<Rightarrow> JFloat t))]),
        (''workouts'', workout_catalog_to_dict (workouts g)),
        (''payment_ledger'', ledger_to_dict (payment_ledger g))]))"

text \<open>
  The two loops of \<^verbatim>\<open>gym_from_dict\<close>. They write the maps directly: a later entry with
  the same id or the same email overwrites an earlier one.
\<close>

fun load_members :: "pylib \<Rightarrow> (string \<times> json) list \<Rightarrow> Gym \<Rightarrow> Gym comp" where
  "load_members lib [] g w = Inr (g, w)"
| "load_members lib ((k, member_data) # rest) g w =
     (case member_from_dict lib member_data w of
        Inl e \<Rightarrow> Inl e
      | Inr (member, w') \<Rightarrow>
          load_members lib rest
            (g\<lparr>members := AList.update (m_id member) member (members g),
               members_by_email :=
                 AList.update (strip (lower (m_email member))) (m_id member)
                   (members_by_email g)\<rparr>)
            w')"

fun load_trainers :: "pylib \<Rightarrow> (string \<times> json) list \<Rightarrow> Gym \<Rightarrow> Gym comp" where
  "load_trainers lib [] g w = Inr (g, w)"
| "load_trainers lib ((k, trainer_data) # rest) g w =
     (case trainer_from_dict lib trainer_data w of
        Inl e \<Rightarrow> Inl e
      | Inr (trainer, w') \<Rightarrow>
          load_trainers lib rest
            (g\<lparr>trainers := AList.update (t_id trainer) trainer (trainers g),
               trainers_by_email :=
                 AList.update (strip (lower (t_email trainer))) (t_id trainer)
                   (trainers_by_email g)\<rparr>)
            w')"

text \<open>
  \<^verbatim>\<open>gym_from_dict\<close>. Its last step calls \<^verbatim>\<open>FakePaymentProcessor(fail_threshold=...)\<close>,
  a call with an argument.
\<close>

definition gym_from_dict :: "pylib \<Rightarrow> json \<Rightarrow> Gym comp" where
  "gym_from_dict lib data =
     (if \<not> is_dict data then raise (ValidationError ''Gym data must be a dictionary.'')
      else
        and_then (lift (method_get data ''name'')) (\<lambda>name.
        if missing_or_blank lib name then raise (ValidationError ''Gym missing name.'')
        else
        and_then (lift (Gym_init name)) (\<lambda>g0.
        and_then (lift (method_get data ''members'')) (\<lambda>members_data.
        (case members_data of
           JDict member_items \<Rightarrow>
             and_then (load_members lib member_items g0) (\<lambda>g1.
             and_then (lift (method_get data ''trainers'')) (\<lambda>trainers_data.
             (case trainers_data of
                JDict trainer_items \<Rightarrow>
                  and_then (load_trainers lib trainer_items g1) (\<lambda>g2.
                  and_then (lift (method_get_default data ''workouts'' (JDict []))) (\<lambda>wd.
                  and_then (workout_catalog_from_dict lib wd) (\<lambda>cat.
                  and_then (lift (method_get_default data ''payment_ledger'' (JDict []))) (\<lambda>ld.
                  and_then (ledger_from_dict lib ld) (\<lambda>ledger.
                  and_then (lift (method_get_default data ''payment_processor'' (JDict [])))
                    (\<lambda>pp_data.
                  and_then (lift (method_get_default pp_data ''type'' (JStr ''fake''))) (\<lambda>pp_type.
                  if pp_type = JStr ''fake'' then
                    and_then (lift (method_get pp_data ''fail_threshold'')) (\<lambda>threshold.
                    and_then (lift (FakePaymentProcessor_init (Some threshold))) (\<lambda>p.
                    ret (g2\<lparr>workouts := cat, payment_ledger := ledger,
                            payment_processor := p\<rparr>)))
                  else raise (ValidationError ''Unknown payment processor ''))))))))
              | _ \<Rightarrow> raise (ValidationError ''Trainers data must be a dictionary.''))))
         | _ \<Rightarrow> raise (ValidationError ''Members data must be a dictionary.''))))))"

subsection \<open>gym.storage: files\<close>

text \<open>
  A path is its text; the file system maps the path of each file to its content.
  Directories are not part of it, so \<^verbatim>\<open>mkdir\<close> leaves it as it is. The content of a
  file is one of three: the text of a JSON document, represented by the value that
  \<^verbatim>\<open>json.load\<close> returns for it and \<^verbatim>\<open>json.dump\<close> writes it from; any other text, on
  which \<^verbatim>\<open>json.load\<close> raises JSONDecodeError; or bytes that are not the UTF-8
  encoding of a text, on which reading the file, opened with
  \<^verbatim>\<open>encoding="utf-8"\<close>, raises UnicodeDecodeError. Failures of the operating system
  are not modelled.
\<close>

datatype content = JsonText json | OtherText string | NotUtf8 string

type_synonym filesystem = "string \<Rightarrow> content option"

definition CURRENT_SCHEMA_VERSION :: int where
  "CURRENT_SCHEMA_VERSION = 1"

text \<open>
  Python's \<^verbatim>\<open>x == n\<close> for an integer \<open>n\<close>: numbers compare by value, and \<^verbatim>\<open>True\<close> and
  \<^verbatim>\<open>False\<close> are the integers 1 and 0.
\<close>

fun py_eq_int :: "json \<Rightarrow> int \<Rightarrow> bool" where
  "py_eq_int (JInt n) k = (n = k)"
| "py_eq_int (JFloat r) k = (r = of_int k)"
| "py_eq_int (JBool b) k = ((if b then 1 else 0) = k)"
| "py_eq_int v k = False"

text \<open>
  The library call \<^verbatim>\<open>json.load(f)\<close> on a file opened for reading with
  \<^verbatim>\<open>encoding="utf-8"\<close>: the value of the document, or the exception of the decoder
  or of the parser.
\<close>

fun json_load :: "content \<Rightarrow> error + json" where
  "json_load (JsonText payload) = Inr payload"
| "json_load (OtherText t) = Inl JSONDecodeError"
| "json_load (NotUtf8 b) = Inl UnicodeDecodeError"

text \<open>\<open>load_gym\<close> calls \<^verbatim>\<open>json.load\<close> outside any \<^verbatim>\<open>try\<close> statement.\<close>

definition load_gym :: "pylib \<Rightarrow> filesystem \<Rightarrow> string \<Rightarrow> Gym comp" where
  "load_gym lib fs filepath =
     (case fs filepath of
        None \<Rightarrow> raise (ValidationError ''No save file found at '')
      | Some f \<Rightarrow>
          and_then (lift (json_load f)) (\<lambda>payload.
          if \<not> is_dict payload then
            raise (ValidationError ''Unexpected save file format: expected json instance at root.'')
          else
            and_then (lift (method_get payload ''schema_version'')) (\<lambda>version.
            if \<not> py_eq_int version CURRENT_SCHEMA_VERSION then
              raise (ValidationError ''Unsupported schema version: expected 1.'')
            else
              and_then (lift (method_get payload ''gym'')) (\<lambda>gym_data.
              if \<not> is_dict gym_data then
                raise (ValidationError ''Invalid save file format: missing gym object.'')
              else gym_from_dict lib gym_data))))"

text \<open>
  \<^verbatim>\<open>path.with_suffix(path.suffix + ".tmp")\<close> appends \<^verbatim>\<open>.tmp\<close> to the file name;
  \<^verbatim>\<open>path.parent\<close> is the text before the last separator.
\<close>

definition tmp_path :: "string \<Rightarrow> string" where
  "tmp_path filepath = filepath @ ''.tmp''"

definition path_parent :: "string \<Rightarrow> string" where
  "path_parent filepath = rev (drop 1 (dropWhile (\<lambda>c. c \<noteq> CHR ''/'') (rev filepath)))"

text \<open>
  The effects of \<^verbatim>\<open>save_gym\<close> on the file system, one step each: create the parent
  directories; store a content under a path (opening for writing stores the empty
  text, and while \<^verbatim>\<open>json.dump\<close> writes, the file holds longer and longer incomplete
  texts, then the document); rename a file over a path.
\<close>

datatype fs_step =
    Mkdir string
  | Store string content
  | Replace string string

fun exec_step :: "fs_step \<Rightarrow> filesystem \<Rightarrow> filesystem" where
  "exec_step (Mkdir d) fs = fs"
| "exec_step (Store p c) fs = fs(p \<mapsto> c)"
| "exec_step (Replace src dst) fs = (if src = dst then fs else (fs(dst := fs src))(src := None))"

text \<open>
  The steps of \<^verbatim>\<open>save_gym(gym, filepath)\<close>, in order. \<open>partials\<close> lists the incomplete
  texts the temporary file holds while the document is being written. Building the
  payload comes after \<^verbatim>\<open>mkdir\<close>; if it raised, no file would be touched.
\<close>

definition save_gym_steps :: "Gym \<Rightarrow> string \<Rightarrow> string list \<Rightarrow> fs_step list" where
  "save_gym_steps g filepath partials =
     Mkdir (path_parent filepath) #
     (case gym_to_dict g of
        Inl e \<Rightarrow> []
      | Inr d \<Rightarrow>
          Store (tmp_path filepath) (OtherText []) #
          map (\<lambda>t. Store (tmp_path filepath) (OtherText t)) partials @
          [Store (tmp_path filepath)
             (JsonText (JDict [(''schema_version'', JInt CURRENT_SCHEMA_VERSION), (''gym'', d)])),
           Replace (tmp_path filepath) filepath])"

definition save_gym :: "Gym \<Rightarrow> string \<Rightarrow> string list \<Rightarrow> filesystem \<Rightarrow> (error + unit) \<times> filesystem" where
  "save_gym g filepath partials fs =
     ((case gym_to_dict g of Inl e \<Rightarrow> Inl e | Inr d \<Rightarrow> Inr ()),
      fold exec_step (save_gym_steps g filepath partials) fs)"

text \<open>The file system when execution stops after the first \<open>k\<close> steps.\<close>

definition stopped_after :: "nat \<Rightarrow> Gym \<Rightarrow> string \<Rightarrow> string list \<Rightarrow> filesystem \<Rightarrow> filesystem" where
  "stopped_after k g filepath partials fs =
     fold exec_step (take k (save_gym_steps g filepath partials)) fs"

subsection \<open>Concrete inputs\<close>

text \<open>The objects at which the theorems below evaluate the code.\<close>

definition world0 :: world where
  "world0 = \<lparr>uuids = siterate (\<lambda>s. CHR ''a'' # s) ''0'',
             nows = sconst (DateTime ''2024-01-01T00:00:00''),
             todays = sconst (Date ''2024-01-01'')\<rparr>"

definition alice :: Member where
  "alice = \<lparr>m_id = ''mem_1'', m_full_name = ''Alice'', m_email = ''a@x.com'',
     m_membership = \<lparr>ms_class = PremiumMembership, ms_id = ''ms_1'', ms_status = ACTIVE,
        ms_price_policy = NoDiscount\<rparr>,
     m_join_date = Date ''2020-02-02''\<rparr>"

definition bob :: Member where
  "bob = \<lparr>m_id = ''mem_2'', m_full_name = ''Bob'', m_email = ''b@x.com'',
     m_membership = \<lparr>ms_class = BasicMembership, ms_id = ''ms_2'', ms_status = PAUSED,
        ms_price_policy = NoDiscount\<rparr>,
     m_join_date = Date ''2020-03-03''\<rparr>"

text \<open>The gym \<^verbatim>\<open>Gym(name="X")\<close>.\<close>

definition gym0 :: Gym where
  "gym0 = \<lparr>g_name = ''X'', members = [], trainers = [], members_by_email = [],
            trainers_by_email = [], payment_processor = \<lparr>fail_threshold = None\<rparr>,
            payment_ledger = \<lparr>records = []\<rparr>,
            workouts = \<lparr>plans = [], plans_by_member = []\<rparr>\<rparr>"

definition gym1 :: Gym where
  "gym1 = gym0\<lparr>members := [(''mem_1'', alice), (''mem_2'', bob)],
                members_by_email := [(''a@x.com'', ''mem_1''), (''b@x.com'', ''mem_2'')]\<rparr>"

definition gym_threshold :: Gym where
  "gym_threshold = gym1\<lparr>payment_processor := \<lparr>fail_threshold = Some 10\<rparr>\<rparr>"

definition legs :: WorkoutPlan where
  "legs = \<lparr>wp_member_id = ''mem_1'', wp_title = ''Legs'', wp_id = ''wkp_0'',
            wp_created_at = DateTime ''2024-01-01T00:00:00'', wp_exercises = []\<rparr>"

definition catalog1 :: WorkoutCatalog where
  "catalog1 = \<lparr>plans = [(''wkp_0'', legs)], plans_by_member = [(''mem_1'', [''wkp_0''])]\<rparr>"

text \<open>
  A rounding for the concrete inputs: it returns its argument, as \<^verbatim>\<open>round(x, 2)\<close> does
  on the prices 29.99 and 59.99 that the members above pay.
\<close>

definition round0 :: "real \<Rightarrow> real" where
  "round0 x = x"

text \<open>Two ledger entries of the member \<open>alice\<close>, one FAILED and one SUCCESS.\<close>

definition failed_record :: PaymentRecord where
  "failed_record = \<lparr>pr_id = ''pay_1'', pr_member_id = ''mem_1'', pr_member_name = ''Alice'',
     pr_amount = 5999 / 100, pr_status = FAILED,
     pr_message = ''Simulated Failure, amount exceeds threshold'',
     pr_created_at = DateTime ''2024-01-01T00:00:00''\<rparr>"

definition paid_record :: PaymentRecord where
  "paid_record = \<lparr>pr_id = ''pay_2'', pr_member_id = ''mem_1'', pr_member_name = ''Alice'',
     pr_amount = 5999 / 100, pr_status = SUCCESS,
     pr_message = ''Payment sucessfully processed'',
     pr_created_at = DateTime ''2024-01-01T00:00:00''\<rparr>"
definition lib0 :: pylib where
  "lib0 = \<lparr>repr_of = (\<lambda>v. ''?''), float_of_str = (\<lambda>s. None), int_of_str = (\<lambda>s. None),
            fromisoformat = (\<lambda>s. Some (DateTime s))\<rparr>"

definition snapshot0 :: json where
  "snapshot0 = JDict
     [(''name'', JStr ''X''),
      (''members'', JDict []),
      (''trainers'', JDict []),
      (''payment_processor'', JDict [(''type'', JStr ''fake''), (''fail_threshold'', JNull)]),
      (''workouts'', JDict [(''plans'', JDict [])]),
      (''payment_ledger'', JDict [(''records'', JList [])])]"

definition fs0 :: filesystem where
  "fs0 = Map.empty(''data/gym.json'' \<mapsto> OtherText ''old'')"

section \<open>Theorems\<close>

subsection \<open>Evaluation and helper facts\<close>

lemmas comp_defs = ret_def raise_def and_then_def lift_def then_pure_def uuid4_hex_def
  datetime_now_def date_today_def new_id_def not_or_blank_def

lemmas str_defs = strip_def is_space_def lower_def lower_char_def upper_char_def is_alpha_def

lemma strip_Nil [simp]: "strip [] = []"
  by (simp add: strip_def)

lemma strip_pay: "strip ''pay'' = ''pay''"
  by (simp add: strip_def is_space_def)

lemma strip_msg_failed:
  "strip ''Simulated Failure, amount exceeds threshold''
     = ''Simulated Failure, amount exceeds threshold''"
  by (simp add: strip_def is_space_def)

lemma strip_msg_success:
  "strip ''Payment sucessfully processed'' = ''Payment sucessfully processed''"
  by (simp add: strip_def is_space_def)

lemma strip_mem_1: "strip ''mem_1'' = ''mem_1''"
  by (simp add: strip_def is_space_def)

lemma strip_mem_2: "strip ''mem_2'' = ''mem_2''"
  by (simp add: strip_def is_space_def)

lemma strip_Alice: "strip ''Alice'' = ''Alice''"
  by (simp add: strip_def is_space_def)

lemma monthly_price_alice: "monthly_price round0 (m_membership alice) = 5999 / 100"
  by (simp add: monthly_price_def alice_def round0_def)

text \<open>
  \<open>PaymentRecord.create\<close> returns no record: when its four checks pass, the call of the
  class raises TypeError.
\<close>

lemma PaymentRecord_create_raises:
  "strip member_id \<noteq> [] \<Longrightarrow> strip member_name \<noteq> [] \<Longrightarrow> 0 \<le> amount \<Longrightarrow>
   strip message \<noteq> [] \<Longrightarrow>
   PaymentRecord_create member_id member_name amount status message w = Inl TypeError"
  by (auto simp: PaymentRecord_create_def ret_def raise_def and_then_def uuid4_hex_def
        datetime_now_def new_id_def strip_pay)

lemma PaymentRecord_create_never_returns:
  "\<exists>e. PaymentRecord_create member_id member_name amount status message w = Inl e"
  by (auto simp: PaymentRecord_create_def ret_def raise_def and_then_def uuid4_hex_def
        datetime_now_def new_id_def strip_pay)

text \<open>Hence no call of the processor, and no call of \<open>charge_member\<close>, returns a record.\<close>

lemma charge_never_returns:
  "\<exists>e. charge p member_id member_name amount w = Inl e"
  by (simp add: charge_def PaymentRecord_create_never_returns)

lemma charge_member_never_returns:
  "\<exists>e. fst (charge_member round2 g member_id amount w) = Inl e"
proof (cases "get_member g member_id")
  case (Inl e)
  then show ?thesis by (simp add: charge_member_def)
next
  case (Inr member)
  obtain e where c: "charge (payment_processor g) (m_id member) (m_full_name member)
       (case amount of None \<Rightarrow> Member_monthly_price round2 member | Some a \<Rightarrow> a) w = Inl e"
    using charge_never_returns by blast
  from Inr c show ?thesis by (simp add: charge_member_def Let_def)
qed

lemma run_add_create:
  "fst (run [AddMember alice, CreateWorkoutPlan ''mem_1'' ''Legs''] (gym0, world0))
     = gym0\<lparr>members := [(''mem_1'', alice)], members_by_email := [(''a@x.com'', ''mem_1'')],
            workouts := catalog1\<rparr>"
  by (simp add: run_def gym0_def world0_def alice_def add_member_def create_workout_plan_def
     get_member_def WorkoutPlan_init_def add_plan_def setdefault_append_def legs_def
     catalog1_def comp_defs str_defs)

lemma run_add_create_remove:
  "fst (run [AddMember alice, CreateWorkoutPlan ''mem_1'' ''Legs'', RemoveWorkoutPlan ''wkp_0'']
          (gym0, world0))
     = gym0\<lparr>members := [(''mem_1'', alice)], members_by_email := [(''a@x.com'', ''mem_1'')],
            workouts := \<lparr>plans = [], plans_by_member = [(''mem_1'', [''wkp_0''])]\<rparr>\<rparr>"
  by (simp add: run_def gym0_def world0_def alice_def add_member_def create_workout_plan_def
     get_member_def WorkoutPlan_init_def add_plan_def setdefault_append_def
     remove_workout_plan_def remove_plan_def comp_defs str_defs AList.delete_eq)

text \<open>
  \<open>remove_plan\<close> never returns normally and never changes the secondary index, whatever
  the catalog and the id.
\<close>

lemma remove_plan_never_returns:
  "(\<exists>e. fst (remove_plan cat plan_id) = Inl e)
   \<and> plans_by_member (snd (remove_plan cat plan_id)) = plans_by_member cat"
  by (simp add: remove_plan_def Let_def split: option.splits)

text \<open>The two email-keyed lookups do raise NotFoundError for an id that is absent.\<close>

lemma get_member_absent:
  "map_of (members g) (strip member_id) = None \<Longrightarrow>
   get_member g member_id = Inl (NotFoundError ''Member with  member id not found in the system.'')"
  by (simp add: get_member_def)

lemma get_trainer_absent:
  "map_of (trainers g) trainer_id = None \<Longrightarrow>
   get_trainer g trainer_id = Inl (NotFoundError ''This trainer does not exist in the system.'')"
  by (simp add: get_trainer_def)

subsection \<open>Membership state machine\<close>

text \<open>
  C8. CANCELLED is terminal. On a membership whose status is CANCELLED, \<open>pause\<close> and
  \<open>resume\<close> raise ValidationError and leave the membership as it was (status CANCELLED);
  \<open>cancel\<close> raises nothing from any status and sets the status to CANCELLED, so a second
  \<open>cancel\<close> also raises nothing and the status stays CANCELLED.
\<close>

theorem cancelled_is_terminal:
  "(ms_status m = CANCELLED \<longrightarrow>
      (\<exists>msg. fst (pause m) = Inl (ValidationError msg)) \<and> snd (pause m) = m \<and>
      (\<exists>msg. fst (resume m) = Inl (ValidationError msg)) \<and> snd (resume m) = m)
   \<and> fst (cancel m) = Inr () \<and> ms_status (snd (cancel m)) = CANCELLED
   \<and> fst (cancel (snd (cancel m))) = Inr ()
   \<and> ms_status (snd (cancel (snd (cancel m)))) = CANCELLED"
  by (simp add: pause_def resume_def cancel_def)

theorem cancelled_is_terminal_witness:
  "ms_status \<lparr>ms_class = BasicMembership, ms_id = ''ms_1'', ms_status = CANCELLED,
       ms_price_policy = NoDiscount\<rparr> = CANCELLED
   \<and> fst (pause \<lparr>ms_class = BasicMembership, ms_id = ''ms_1'', ms_status = CANCELLED,
       ms_price_policy = NoDiscount\<rparr>)
       = Inl (ValidationError ''Cannot pause a cancelled membership.'')
   \<and> ms_status (snd (resume \<lparr>ms_class = BasicMembership, ms_id = ''ms_1'',
       ms_status = CANCELLED, ms_price_policy = NoDiscount\<rparr>)) = CANCELLED"
  using cancelled_is_terminal [of "\<lparr>ms_class = BasicMembership, ms_id = ''ms_1'',
       ms_status = CANCELLED, ms_price_policy = NoDiscount\<rparr>"]
  by (simp add: pause_def resume_def)

subsection \<open>Dual-index collections\<close>

text \<open>
  C3, evaluated at a run of the aggregate's operations that ends in an inconsistent
  index. From the empty gym \<^verbatim>\<open>Gym(name="X")\<close>, adding a member and creating a workout
  plan for her leaves all three indexes consistent; removing that plan then pops it from
  the primary map \<open>plans\<close>, raises, and leaves its id in \<open>plans_by_member\<close>, so an id of
  the secondary index no longer resolves in the primary map.
\<close>

theorem remove_workout_plan_breaks_plan_index:
  "Gym_init (JStr ''X'') = Inr gym0
   \<and> consistent gym0
   \<and> consistent (fst (run [AddMember alice, CreateWorkoutPlan ''mem_1'' ''Legs''] (gym0, world0)))
   \<and> workouts (fst (run [AddMember alice, CreateWorkoutPlan ''mem_1'' ''Legs'',
                          RemoveWorkoutPlan ''wkp_0''] (gym0, world0)))
       = \<lparr>plans = [], plans_by_member = [(''mem_1'', [''wkp_0''])]\<rparr>
   \<and> \<not> consistent (fst (run [AddMember alice, CreateWorkoutPlan ''mem_1'' ''Legs'',
                               RemoveWorkoutPlan ''wkp_0''] (gym0, world0)))"
proof -
  have 1: "Gym_init (JStr ''X'') = Inr gym0"
    by (simp add: Gym_init_def then_pure_def not_or_blank_def strip_def is_space_def gym0_def)
  have 2: "consistent gym0"
    by (simp add: consistent_def members_consistent_def trainers_consistent_def
          plans_consistent_def gym0_def)
  have 3: "consistent (fst (run [AddMember alice, CreateWorkoutPlan ''mem_1'' ''Legs'']
             (gym0, world0)))"
    unfolding run_add_create
    by (simp add: consistent_def members_consistent_def trainers_consistent_def
          plans_consistent_def gym0_def alice_def catalog1_def legs_def str_defs)
  have 4: "\<not> consistent (fst (run [AddMember alice, CreateWorkoutPlan ''mem_1'' ''Legs'',
                               RemoveWorkoutPlan ''wkp_0''] (gym0, world0)))"
    unfolding run_add_create_remove
    by (simp add: consistent_def plans_consistent_def gym0_def)
  from 1 2 3 4 show ?thesis unfolding run_add_create_remove by simp
qed

text \<open>
  C4, evaluated at a catalog that satisfies the invariant and holds plan \<open>wkp_0\<close> of
  member \<open>mem_1\<close>: \<open>remove_plan\<close> raises the inconsistency error although neither the
  member key nor the id in its list was missing, and the id stays in
  \<open>plans_by_member\<close>.
\<close>

theorem remove_plan_leaves_secondary_index:
  "plans_consistent catalog1
   \<and> map_of (plans catalog1) ''wkp_0'' = Some legs
   \<and> wp_member_id legs = ''mem_1''
   \<and> map_of (plans_by_member catalog1) ''mem_1'' = Some [''wkp_0'']
   \<and> remove_plan catalog1 ''wkp_0''
       = (Inl (ValidationError ''Workout index in consistent: member key missing.''),
          \<lparr>plans = [], plans_by_member = [(''mem_1'', [''wkp_0''])]\<rparr>)"
  by (simp add: plans_consistent_def catalog1_def legs_def remove_plan_def AList.delete_eq)

theorem remove_plan_leaves_secondary_index_witness:
  "fst (remove_plan catalog1 ''wkp_0'') \<noteq> Inr ()
   \<and> map_of (plans_by_member (snd (remove_plan catalog1 ''wkp_0''))) ''mem_1''
       = Some [''wkp_0'']"
  using remove_plan_leaves_secondary_index by simp

text \<open>
  C5, evaluated at the empty gym: looking up a workout plan that is absent raises
  ValidationError, through \<open>WorkoutCatalog.get_plan\<close> and through
  \<open>Gym.get_workout_plan\<close>, while \<open>get_member\<close> and \<open>get_trainer\<close> raise NotFoundError.
\<close>

theorem get_plan_absent_raises_ValidationError:
  "map_of (plans (workouts gym0)) ''wkp_0'' = None
   \<and> get_plan (workouts gym0) ''wkp_0''
       = Inl (ValidationError ''Plan with  does not exist in the system.'')
   \<and> get_workout_plan gym0 ''wkp_0''
       = Inl (ValidationError ''Plan with  does not exist in the system.'')
   \<and> get_member gym0 ''mem_1''
       = Inl (NotFoundError ''Member with  member id not found in the system.'')
   \<and> get_trainer gym0 ''trn_1''
       = Inl (NotFoundError ''This trainer does not exist in the system.'')"
  by (simp add: gym0_def get_plan_def get_workout_plan_def get_member_def get_trainer_def)

subsection \<open>Charging a member\<close>

text \<open>
  C9. Let \<open>m\<close> be the member that \<open>get_member\<close> finds for \<open>member_id\<close> (the lookup strips
  the id). If the membership of \<open>m\<close> is not ACTIVE, \<open>charge_member\<close> raises
  ValidationError, whatever the amount. If an explicit negative amount is given, it
  raises ValidationError. But if \<open>m\<close> is active and no amount is given, it does not
  charge the monthly price: it raises TypeError, returns no record and leaves the gym
  as it was. Here \<open>m\<close> satisfies what its constructors establish (an id and a name that
  are not blank) and its monthly price is not negative, so that every check before the
  record is built passes; the TypeError comes from \<open>PaymentRecord.create\<close>, whose call
  of the class has no constructor to reach.
\<close>

theorem charge_member_default_amount_raises_TypeError:
  "map_of (members g) (strip member_id) = Some m \<Longrightarrow>
     (ms_status (m_membership m) \<noteq> ACTIVE \<longrightarrow>
        (\<exists>msg. fst (charge_member round2 g member_id amount w) = Inl (ValidationError msg)))
   \<and> (a < 0 \<longrightarrow>
        (\<exists>msg. fst (charge_member round2 g member_id (Some a) w)
                  = Inl (ValidationError msg)))
   \<and> (ms_status (m_membership m) = ACTIVE \<and> strip (m_id m) \<noteq> []
        \<and> strip (m_full_name m) \<noteq> [] \<and> 0 \<le> monthly_price round2 (m_membership m) \<longrightarrow>
        fst (charge_member round2 g member_id None w) = Inl TypeError
        \<and> fst (snd (charge_member round2 g member_id None w)) = g)"
  apply (intro conjI impI)
     apply (simp add: charge_member_def get_member_def Member_is_active_def is_active_def)
    apply (simp add: charge_member_def get_member_def Member_is_active_def is_active_def)
   apply (simp add: charge_member_def get_member_def Member_is_active_def is_active_def
      Member_monthly_price_def charge_def PaymentRecord_create_raises
      strip_msg_failed strip_msg_success Let_def)
  apply (simp add: charge_member_def get_member_def Member_is_active_def is_active_def
      Member_monthly_price_def charge_def PaymentRecord_create_raises
      strip_msg_failed strip_msg_success Let_def)
  done

theorem charge_member_default_amount_raises_TypeError_witness:
  "map_of (members gym1) (strip ''mem_2'') = Some bob
   \<and> ms_status (m_membership bob) \<noteq> ACTIVE
   \<and> (\<exists>msg. fst (charge_member round0 gym1 ''mem_2'' None world0) = Inl (ValidationError msg))
   \<and> map_of (members gym1) (strip ''mem_1'') = Some alice
   \<and> (\<exists>msg. fst (charge_member round0 gym1 ''mem_1'' (Some (- 1)) world0)
              = Inl (ValidationError msg))
   \<and> ms_status (m_membership alice) = ACTIVE
   \<and> monthly_price round0 (m_membership alice) = 5999 / 100
   \<and> fst (charge_member round0 gym1 ''mem_1'' None world0) = Inl TypeError
   \<and> fst (snd (charge_member round0 gym1 ''mem_1'' None world0)) = gym1"
proof -
  have b: "map_of (members gym1) (strip ''mem_2'') = Some bob"
    by (simp add: gym1_def gym0_def strip_mem_2)
  have a: "map_of (members gym1) (strip ''mem_1'') = Some alice"
    by (simp add: gym1_def gym0_def strip_mem_1)
  have bs: "ms_status (m_membership bob) \<noteq> ACTIVE"
    by (simp add: bob_def)
  have as: "ms_status (m_membership alice) = ACTIVE"
    by (simp add: alice_def)
  have av: "ms_status (m_membership alice) = ACTIVE \<and> strip (m_id alice) \<noteq> []
      \<and> strip (m_full_name alice) \<noteq> [] \<and> 0 \<le> monthly_price round0 (m_membership alice)"
    by (simp add: monthly_price_alice) (simp add: alice_def strip_mem_1 strip_Alice)
  from charge_member_default_amount_raises_TypeError
         [OF b, where amount = None and ?round2.0 = round0 and w = world0 and a = 0] bs
  have 1: "\<exists>msg. fst (charge_member round0 gym1 ''mem_2'' None world0)
             = Inl (ValidationError msg)"
    by blast
  from charge_member_default_amount_raises_TypeError
         [OF a, where amount = None and ?round2.0 = round0 and w = world0 and a = "- 1"] av
  have 2: "\<exists>msg. fst (charge_member round0 gym1 ''mem_1'' (Some (- 1)) world0)
             = Inl (ValidationError msg)"
    and 3: "fst (charge_member round0 gym1 ''mem_1'' None world0) = Inl TypeError"
    and 4: "fst (snd (charge_member round0 gym1 ''mem_1'' None world0)) = gym1"
    by simp_all
  from a b bs as 1 2 3 4 monthly_price_alice show ?thesis by blast
qed

text \<open>
  C10. For an active member (found by \<open>get_member\<close>, with an id and a name that are not
  blank), a processor whose \<open>fail_threshold\<close> is set to \<open>t\<close>, and a charge amount (the
  explicit amount, or the monthly price when none is given) that is not negative and
  exceeds \<open>t\<close>: \<open>charge_member\<close> does raise. The processor takes the branch that builds
  a FAILED record, \<open>PaymentRecord.create\<close> raises TypeError there, and \<open>charge_member\<close>
  passes it on: no record is returned and the gym, its ledger included, is as it was.
  What the claim says of the totals does hold of \<open>total_revenue\<close> and
  \<open>total_paid_by_member\<close>: adding a FAILED record to the ledger changes neither, and
  adding a SUCCESS record adds its amount to the revenue and to the total of its member.
\<close>

theorem charge_above_threshold_raises_TypeError:
  "(map_of (members g) (strip member_id) = Some m
      \<and> ms_status (m_membership m) = ACTIVE
      \<and> strip (m_id m) \<noteq> [] \<and> strip (m_full_name m) \<noteq> []
      \<and> fail_threshold (payment_processor g) = Some t
      \<and> charge_amount = (case amount of None \<Rightarrow> Member_monthly_price round2 m | Some a \<Rightarrow> a)
      \<and> 0 \<le> charge_amount \<and> t < charge_amount \<longrightarrow>
        fst (charge_member round2 g member_id amount w) = Inl TypeError
        \<and> fst (snd (charge_member round2 g member_id amount w)) = g)
   \<and> (pr_status r = FAILED \<longrightarrow>
        total_revenue (g\<lparr>payment_ledger := snd (ledger_add (payment_ledger g) r)\<rparr>)
          = total_revenue g
        \<and> total_paid_by_member (g\<lparr>payment_ledger := snd (ledger_add (payment_ledger g) r)\<rparr>) i
          = total_paid_by_member g i)
   \<and> (pr_status r = SUCCESS \<longrightarrow>
        total_revenue (g\<lparr>payment_ledger := snd (ledger_add (payment_ledger g) r)\<rparr>)
          = total_revenue g + pr_amount r
        \<and> (total_paid_by_member g (pr_member_id r) = Inr x \<longrightarrow>
             total_paid_by_member (g\<lparr>payment_ledger := snd (ledger_add (payment_ledger g) r)\<rparr>)
               (pr_member_id r) = Inr (x + pr_amount r)))"
proof (intro conjI impI)
  assume h: "map_of (members g) (strip member_id) = Some m
      \<and> ms_status (m_membership m) = ACTIVE
      \<and> strip (m_id m) \<noteq> [] \<and> strip (m_full_name m) \<noteq> []
      \<and> fail_threshold (payment_processor g) = Some t
      \<and> charge_amount = (case amount of None \<Rightarrow> Member_monthly_price round2 m | Some a \<Rightarrow> a)
      \<and> 0 \<le> charge_amount \<and> t < charge_amount"
  then have c: "charge (payment_processor g) (m_id m) (m_full_name m) charge_amount w
                  = Inl TypeError"
    by (simp add: charge_def PaymentRecord_create_raises strip_msg_failed)
  from h c show "fst (charge_member round2 g member_id amount w) = Inl TypeError"
    by (simp add: charge_member_def get_member_def Member_is_active_def is_active_def Let_def)
  from h c show "fst (snd (charge_member round2 g member_id amount w)) = g"
    by (simp add: charge_member_def get_member_def Member_is_active_def is_active_def Let_def)
next
  assume "pr_status r = FAILED"
  then show "total_revenue (g\<lparr>payment_ledger := snd (ledger_add (payment_ledger g) r)\<rparr>)
          = total_revenue g"
    by (simp add: total_revenue_def total_success_for_all_def ledger_add_def)
next
  assume "pr_status r = FAILED"
  then show "total_paid_by_member (g\<lparr>payment_ledger := snd (ledger_add (payment_ledger g) r)\<rparr>) i
          = total_paid_by_member g i"
    by (simp add: total_paid_by_member_def total_success_for_member_def ledger_add_def
          get_member_def then_pure_def split: option.splits)
next
  assume "pr_status r = SUCCESS"
  then show "total_revenue (g\<lparr>payment_ledger := snd (ledger_add (payment_ledger g) r)\<rparr>)
          = total_revenue g + pr_amount r"
    by (simp add: total_revenue_def total_success_for_all_def ledger_add_def)
next
  assume "pr_status r = SUCCESS"
    and "total_paid_by_member g (pr_member_id r) = Inr x"
  then show "total_paid_by_member (g\<lparr>payment_ledger := snd (ledger_add (payment_ledger g) r)\<rparr>)
               (pr_member_id r) = Inr (x + pr_amount r)"
    by (auto simp add: total_paid_by_member_def total_success_for_member_def ledger_add_def
          get_member_def then_pure_def split: option.splits)
qed

theorem charge_above_threshold_raises_TypeError_witness:
  "map_of (members gym_threshold) (strip ''mem_1'') = Some alice
   \<and> fail_threshold (payment_processor gym_threshold) = Some 10
   \<and> Member_monthly_price round0 alice = 5999 / 100
   \<and> fst (charge_member round0 gym_threshold ''mem_1'' None world0) = Inl TypeError
   \<and> fst (snd (charge_member round0 gym_threshold ''mem_1'' None world0)) = gym_threshold
   \<and> total_revenue gym_threshold = 0
   \<and> total_paid_by_member gym_threshold ''mem_1'' = Inr 0
   \<and> total_revenue
        (gym_threshold\<lparr>payment_ledger :=
           snd (ledger_add (payment_ledger gym_threshold) failed_record)\<rparr>) = 0
   \<and> total_paid_by_member
        (gym_threshold\<lparr>payment_ledger :=
           snd (ledger_add (payment_ledger gym_threshold) failed_record)\<rparr>) ''mem_1'' = Inr 0
   \<and> total_revenue
        (gym_threshold\<lparr>payment_ledger :=
           snd (ledger_add (payment_ledger gym_threshold) paid_record)\<rparr>) = 5999 / 100
   \<and> total_paid_by_member
        (gym_threshold\<lparr>payment_ledger :=
           snd (ledger_add (payment_ledger gym_threshold) paid_record)\<rparr>) ''mem_1''
       = Inr (5999 / 100)"
proof -
  have a: "map_of (members gym_threshold) (strip ''mem_1'') = Some alice"
    by (simp add: gym_threshold_def gym1_def gym0_def strip_mem_1)
  have s: "ms_status (m_membership alice) = ACTIVE" "strip (m_id alice) \<noteq> []"
      "strip (m_full_name alice) \<noteq> []"
    by (simp_all add: alice_def strip_mem_1 strip_Alice)
  have t: "fail_threshold (payment_processor gym_threshold) = Some 10"
    by (simp add: gym_threshold_def)
  have p: "Member_monthly_price round0 alice = 5999 / 100"
    by (simp add: Member_monthly_price_def monthly_price_alice)
  have c: "5999 / 100 = (case None of None \<Rightarrow> Member_monthly_price round0 alice | Some a \<Rightarrow> a)"
    by (simp add: p)
  have r0: "total_revenue gym_threshold = 0"
    by (simp add: total_revenue_def total_success_for_all_def gym_threshold_def
          gym1_def gym0_def)
  have m0: "total_paid_by_member gym_threshold ''mem_1'' = Inr 0"
    by (simp add: total_paid_by_member_def total_success_for_member_def get_member_def
          then_pure_def gym_threshold_def gym1_def gym0_def strip_mem_1)
  have f: "pr_status failed_record = FAILED" and ok: "pr_status paid_record = SUCCESS"
    and i: "pr_member_id paid_record = ''mem_1''" and am: "pr_amount paid_record = 5999 / 100"
    by (simp_all add: failed_record_def paid_record_def)
  note th = charge_above_threshold_raises_TypeError
  from th [where g = gym_threshold and member_id = "''mem_1''" and m = alice and t = 10
          and charge_amount = "5999 / 100" and amount = None and ?round2.0 = round0
          and w = world0]
    a s t c
  have 1: "fst (charge_member round0 gym_threshold ''mem_1'' None world0) = Inl TypeError"
    and 2: "fst (snd (charge_member round0 gym_threshold ''mem_1'' None world0)) = gym_threshold"
    by simp_all
  from th [where g = gym_threshold and r = failed_record and i = "''mem_1''"] f r0 m0
  have 3: "total_revenue
        (gym_threshold\<lparr>payment_ledger :=
           snd (ledger_add (payment_ledger gym_threshold) failed_record)\<rparr>) = 0"
    and 4: "total_paid_by_member
        (gym_threshold\<lparr>payment_ledger :=
           snd (ledger_add (payment_ledger gym_threshold) failed_record)\<rparr>) ''mem_1'' = Inr 0"
    by simp_all
  from th [where g = gym_threshold and r = paid_record and x = 0] ok r0 m0 i am
  have 5: "total_revenue
        (gym_threshold\<lparr>payment_ledger :=
           snd (ledger_add (payment_ledger gym_threshold) paid_record)\<rparr>) = 5999 / 100"
    and 6: "total_paid_by_member
        (gym_threshold\<lparr>payment_ledger :=
           snd (ledger_add (payment_ledger gym_threshold) paid_record)\<rparr>) ''mem_1''
       = Inr (5999 / 100)"
    by simp_all
  from a t p 1 2 r0 m0 3 4 5 6 show ?thesis by blast
qed
subsection \<open>Helper facts about the codec and the file steps\<close>

lemma membership_to_dict_total:
  "membership_to_dict ms =
     Inr (JDict [(''type'', JStr ''basic''),
                 (''status'', JStr (MembershipStatus_value (ms_status ms))),
                 (''price_policy'', price_policy_to_dict (ms_price_policy ms))])"
  by (simp add: membership_to_dict_def isinstance_BaseMembership_def then_pure_def)

lemma members_to_items_total: "\<exists>ds. members_to_items ms = Inr ds"
  by (induction ms rule: members_to_items.induct)
     (auto simp: member_to_dict_def membership_to_dict_total then_pure_def)

lemma gym_to_dict_total: "\<exists>d. gym_to_dict g = Inr d"
  using members_to_items_total [of "members g"]
  by (auto simp: gym_to_dict_def then_pure_def)

lemma tmp_path_neq [simp]: "tmp_path p \<noteq> p" "p \<noteq> tmp_path p"
  by (simp_all add: tmp_path_def)

lemma fold_stores_other_path:
  "\<forall>s \<in> set ss. (\<exists>d. s = Mkdir d) \<or> (\<exists>c. s = Store q c) \<Longrightarrow> q \<noteq> p \<Longrightarrow>
   fold exec_step ss fs p = fs p"
  by (induction ss arbitrary: fs) auto

lemma save_gym_steps_Inr:
  "gym_to_dict g = Inr d \<Longrightarrow>
   save_gym_steps g p partials =
     (Mkdir (path_parent p) # Store (tmp_path p) (OtherText []) #
      map (\<lambda>t. Store (tmp_path p) (OtherText t)) partials @
      [Store (tmp_path p)
         (JsonText (JDict [(''schema_version'', JInt CURRENT_SCHEMA_VERSION), (''gym'', d)]))])
     @ [Replace (tmp_path p) p]"
  by (simp add: save_gym_steps_def)

lemma before_replace_only_tmp:
  "\<forall>s \<in> set (Mkdir (path_parent p) # Store (tmp_path p) (OtherText []) #
      map (\<lambda>t. Store (tmp_path p) (OtherText t)) partials @
      [Store (tmp_path p) c]). (\<exists>d. s = Mkdir d) \<or> (\<exists>c. s = Store (tmp_path p) c)"
  by auto

lemma fold_before_replace_tmp:
  "fold exec_step (Mkdir (path_parent p) # Store (tmp_path p) (OtherText []) #
      map (\<lambda>t. Store (tmp_path p) (OtherText t)) partials @
      [Store (tmp_path p) c]) fs (tmp_path p) = Some c"
  by simp

lemma gym_to_dict_gym0: "gym_to_dict gym0 = Inr snapshot0"
  by (simp add: gym_to_dict_def gym0_def snapshot0_def then_pure_def workout_catalog_to_dict_def
        ledger_to_dict_def)

lemma save_gym_stores_document:
  "gym_to_dict g = Inr d \<Longrightarrow>
   save_gym g p partials fs = (Inr (), fs') \<Longrightarrow>
   fs' p = Some (JsonText (JDict [(''schema_version'', JInt CURRENT_SCHEMA_VERSION), (''gym'', d)]))"
  by (auto simp: save_gym_def save_gym_steps_Inr)

lemma Gym_init_Inr:
  "Gym_init (JStr X) = Inr g \<Longrightarrow>
   strip X \<noteq> [] \<and> X \<noteq> [] \<and>
   g = \<lparr>g_name = X, members = [], trainers = [], members_by_email = [],
        trainers_by_email = [], payment_processor = \<lparr>fail_threshold = None\<rparr>,
        payment_ledger = \<lparr>records = []\<rparr>,
        workouts = \<lparr>plans = [], plans_by_member = []\<rparr>\<rparr>"
  by (auto simp: Gym_init_def then_pure_def not_or_blank_def split: if_splits)

lemma gym_from_dict_empty:
  "strip X \<noteq> [] \<Longrightarrow> X \<noteq> [] \<Longrightarrow>
   gym_from_dict lib (JDict
     [(''name'', JStr X),
      (''members'', JDict []),
      (''trainers'', JDict []),
      (''payment_processor'', JDict [(''type'', JStr ''fake''), (''fail_threshold'', JNull)]),
      (''workouts'', JDict [(''plans'', JDict [])]),
      (''payment_ledger'', JDict [(''records'', JList [])])]) w = Inl TypeError"
  by (simp add: gym_from_dict_def comp_defs missing_or_blank_def py_str_def Gym_init_def
        workout_catalog_from_dict_def ledger_from_dict_def)

subsection \<open>Snapshot persistence\<close>

text \<open>
  C1, evaluated at every gym \<^verbatim>\<open>Gym(name=X)\<close> that the constructor accepts (no members,
  trainers, plans or ledger records): \<open>save_gym\<close> succeeds, and \<open>load_gym\<close> on the same
  path raises TypeError, from the call \<^verbatim>\<open>FakePaymentProcessor(fail_threshold=...)\<close> at
  the end of \<open>gym_from_dict\<close>. No gym is returned.
\<close>

theorem load_after_save_raises_TypeError:
  "Gym_init (JStr X) = Inr g \<Longrightarrow>
   fst (save_gym g p partials fs) = Inr ()
   \<and> load_gym lib (snd (save_gym g p partials fs)) p w = Inl TypeError"
proof -
  assume init: "Gym_init (JStr X) = Inr g"
  note g = Gym_init_Inr [OF init]
  let ?d = "JDict
     [(''name'', JStr X),
      (''members'', JDict []),
      (''trainers'', JDict []),
      (''payment_processor'', JDict [(''type'', JStr ''fake''), (''fail_threshold'', JNull)]),
      (''workouts'', JDict [(''plans'', JDict [])]),
      (''payment_ledger'', JDict [(''records'', JList [])])]"
  have d: "gym_to_dict g = Inr ?d"
    using g by (simp add: gym_to_dict_def then_pure_def workout_catalog_to_dict_def
        ledger_to_dict_def)
  have ok: "fst (save_gym g p partials fs) = Inr ()"
    by (simp add: save_gym_def d)
  then have "save_gym g p partials fs = (Inr (), snd (save_gym g p partials fs))"
    by (metis prod.collapse)
  from save_gym_stores_document [OF d this]
  have stored: "snd (save_gym g p partials fs) p
      = Some (JsonText (JDict [(''schema_version'', JInt CURRENT_SCHEMA_VERSION), (''gym'', ?d)]))" .
  have "load_gym lib (snd (save_gym g p partials fs)) p w = gym_from_dict lib ?d w"
    by (simp add: load_gym_def stored comp_defs CURRENT_SCHEMA_VERSION_def)
  with g ok show ?thesis by (simp add: gym_from_dict_empty)
qed

theorem load_after_save_raises_TypeError_witness:
  "Gym_init (JStr ''X'') = Inr gym0
   \<and> fst (save_gym gym0 ''data/gym.json'' [] Map.empty) = Inr ()
   \<and> load_gym lib0 (snd (save_gym gym0 ''data/gym.json'' [] Map.empty)) ''data/gym.json'' world0
       = Inl TypeError"
proof -
  have 1: "Gym_init (JStr ''X'') = Inr gym0"
    by (simp add: Gym_init_def then_pure_def not_or_blank_def strip_def is_space_def gym0_def)
  from load_after_save_raises_TypeError [OF 1, of "''data/gym.json''" "[]" Map.empty lib0 world0] 1
  show ?thesis by simp
qed

text \<open>
  C2, evaluated at a member with a PremiumMembership and join date 2020-02-02. Her
  membership is encoded with type \<^verbatim>\<open>"basic"\<close>, and that document decodes to a
  BasicMembership (with a fresh identifier). Her own document carries the join date,
  and decoding it yields a member with the stored id, name and email, a
  BasicMembership, and the join date \<^verbatim>\<open>date.today()\<close> (2024-01-01 in \<open>world0\<close>).
\<close>

theorem premium_membership_decodes_as_basic:
  "ms_class (m_membership alice) = PremiumMembership
   \<and> membership_to_dict (m_membership alice)
       = Inr (JDict [(''type'', JStr ''basic''), (''status'', JStr ''active''),
                     (''price_policy'', JDict [(''type'', JStr ''no_discount'')])])
   \<and> (\<forall>lib w. membership_from_dict lib
                  (JDict [(''type'', JStr ''basic''), (''status'', JStr ''active''),
                          (''price_policy'', JDict [(''type'', JStr ''no_discount'')])]) w
        = Inr (\<lparr>ms_class = BasicMembership, ms_id = ''ms_'' @ shd (uuids w),
                  ms_status = ACTIVE, ms_price_policy = NoDiscount\<rparr>,
               w\<lparr>uuids := stl (uuids w)\<rparr>))
   \<and> m_join_date alice = Date ''2020-02-02''
   \<and> member_to_dict alice
       = Inr (JDict [(''id'', JStr ''mem_1''), (''full_name'', JStr ''Alice''),
                     (''email'', JStr ''a@x.com''), (''join_date'', JStr ''2020-02-02''),
                     (''membership'',
                        JDict [(''type'', JStr ''basic''), (''status'', JStr ''active''),
                               (''price_policy'', JDict [(''type'', JStr ''no_discount'')])])])
   \<and> (\<forall>lib. \<exists>m w'. member_from_dict lib
                  (JDict [(''id'', JStr ''mem_1''), (''full_name'', JStr ''Alice''),
                     (''email'', JStr ''a@x.com''), (''join_date'', JStr ''2020-02-02''),
                     (''membership'',
                        JDict [(''type'', JStr ''basic''), (''status'', JStr ''active''),
                               (''price_policy'', JDict [(''type'', JStr ''no_discount'')])])])
                  world0 = Inr (m, w')
        \<and> m_id m = ''mem_1'' \<and> m_full_name m = ''Alice'' \<and> m_email m = ''a@x.com''
        \<and> ms_class (m_membership m) = BasicMembership
        \<and> m_join_date m = Date ''2024-01-01'')"
proof -
  have 1: "ms_class (m_membership alice) = PremiumMembership" "m_join_date alice = Date ''2020-02-02''"
    by (simp_all add: alice_def)
  have 2: "membership_to_dict (m_membership alice)
       = Inr (JDict [(''type'', JStr ''basic''), (''status'', JStr ''active''),
                     (''price_policy'', JDict [(''type'', JStr ''no_discount'')])])"
    by (simp add: membership_to_dict_total alice_def)
  have 3: "\<And>lib w. membership_from_dict lib
                  (JDict [(''type'', JStr ''basic''), (''status'', JStr ''active''),
                          (''price_policy'', JDict [(''type'', JStr ''no_discount'')])]) w
        = Inr (\<lparr>ms_class = BasicMembership, ms_id = ''ms_'' @ shd (uuids w),
                  ms_status = ACTIVE, ms_price_policy = NoDiscount\<rparr>,
               w\<lparr>uuids := stl (uuids w)\<rparr>)"
    by (simp add: membership_from_dict_def price_policy_from_dict_def BaseMembership_init_def
          MembershipStatus_of_def comp_defs strip_def is_space_def)
  have 4: "member_to_dict alice
       = Inr (JDict [(''id'', JStr ''mem_1''), (''full_name'', JStr ''Alice''),
                     (''email'', JStr ''a@x.com''), (''join_date'', JStr ''2020-02-02''),
                     (''membership'',
                        JDict [(''type'', JStr ''basic''), (''status'', JStr ''active''),
                               (''price_policy'', JDict [(''type'', JStr ''no_discount'')])])])"
    by (simp add: member_to_dict_def 2 then_pure_def) (simp add: alice_def)
  have 5: "\<And>lib. \<exists>m w'. member_from_dict lib
                  (JDict [(''id'', JStr ''mem_1''), (''full_name'', JStr ''Alice''),
                     (''email'', JStr ''a@x.com''), (''join_date'', JStr ''2020-02-02''),
                     (''membership'',
                        JDict [(''type'', JStr ''basic''), (''status'', JStr ''active''),
                               (''price_policy'', JDict [(''type'', JStr ''no_discount'')])])])
                  world0 = Inr (m, w')
        \<and> m_id m = ''mem_1'' \<and> m_full_name m = ''Alice'' \<and> m_email m = ''a@x.com''
        \<and> ms_class (m_membership m) = BasicMembership
        \<and> m_join_date m = Date ''2024-01-01''"
    by (simp add: member_from_dict_def 3 Member_init_def Person_post_init_def
          missing_or_blank_def py_str_def comp_defs world0_def strip_def is_space_def)
  from 1 2 3 4 5 show ?thesis by blast
qed

text \<open>
  C7. \<open>save_gym\<close> runs its steps in this order: the temporary sibling file
  \<open>tmp_path p\<close> is opened and written, and the last step renames it over the target
  \<open>p\<close>. If execution stops after any number \<open>k\<close> of steps short of all of them, the
  content of the target path is what it was before the call (absent if it was absent).
  Before the rename the temporary file holds the whole snapshot document; the
  completed call differs from that state only in that the target holds the document
  and the temporary file is gone. Building the snapshot never raises.
\<close>

theorem save_gym_replaces_atomically:
  "(\<exists>d. gym_to_dict g = Inr d)
   \<and> (\<forall>k < length (save_gym_steps g p partials). stopped_after k g p partials fs p = fs p)
   \<and> (gym_to_dict g = Inr d \<longrightarrow>
        last (save_gym_steps g p partials) = Replace (tmp_path p) p
        \<and> stopped_after (length (save_gym_steps g p partials) - 1) g p partials fs (tmp_path p)
            = Some (JsonText (JDict [(''schema_version'', JInt CURRENT_SCHEMA_VERSION), (''gym'', d)]))
        \<and> save_gym g p partials fs
            = (Inr (), (stopped_after (length (save_gym_steps g p partials) - 1) g p partials fs)
                 (p \<mapsto> JsonText (JDict [(''schema_version'', JInt CURRENT_SCHEMA_VERSION), (''gym'', d)]),
                  tmp_path p := None)))"
proof (intro conjI allI impI)
  show "\<exists>d. gym_to_dict g = Inr d" by (rule gym_to_dict_total)
next
  fix k assume k: "k < length (save_gym_steps g p partials)"
  obtain d' where d': "gym_to_dict g = Inr d'" using gym_to_dict_total by blast
  let ?pre = "Mkdir (path_parent p) # Store (tmp_path p) (OtherText []) #
      map (\<lambda>t. Store (tmp_path p) (OtherText t)) partials @
      [Store (tmp_path p)
         (JsonText (JDict [(''schema_version'', JInt CURRENT_SCHEMA_VERSION), (''gym'', d')]))]"
  have steps: "save_gym_steps g p partials = ?pre @ [Replace (tmp_path p) p]"
    by (rule save_gym_steps_Inr [OF d'])
  have take_prefix: "\<And>(xs :: fs_step list) ys. k \<le> length xs \<Longrightarrow> take k (xs @ ys) = take k xs"
    by simp
  from k have "k \<le> length ?pre" by (simp add: steps)
  then have tk: "take k (save_gym_steps g p partials) = take k ?pre"
    unfolding steps by (rule take_prefix)
  have "\<forall>s \<in> set (take k ?pre). (\<exists>d. s = Mkdir d) \<or> (\<exists>c. s = Store (tmp_path p) c)"
    using before_replace_only_tmp [of p partials] set_take_subset [of k ?pre] by blast
  then show "stopped_after k g p partials fs p = fs p"
    unfolding stopped_after_def tk
    by (rule fold_stores_other_path) simp
next
  assume d: "gym_to_dict g = Inr d"
  show "last (save_gym_steps g p partials) = Replace (tmp_path p) p"
    by (simp add: save_gym_steps_Inr [OF d])
next
  assume d: "gym_to_dict g = Inr d"
  show "stopped_after (length (save_gym_steps g p partials) - 1) g p partials fs (tmp_path p)
            = Some (JsonText (JDict [(''schema_version'', JInt CURRENT_SCHEMA_VERSION), (''gym'', d)]))"
    unfolding stopped_after_def save_gym_steps_Inr [OF d]
    by simp
next
  assume d: "gym_to_dict g = Inr d"
  show "save_gym g p partials fs
            = (Inr (), (stopped_after (length (save_gym_steps g p partials) - 1) g p partials fs)
                 (p \<mapsto> JsonText (JDict [(''schema_version'', JInt CURRENT_SCHEMA_VERSION), (''gym'', d)]),
                  tmp_path p := None))"
    unfolding stopped_after_def save_gym_def save_gym_steps_Inr [OF d]
    by (simp add: d)
qed

theorem save_gym_replaces_atomically_witness:
  "(2::nat) < length (save_gym_steps gym0 ''data/gym.json'' [''{''])
   \<and> stopped_after 2 gym0 ''data/gym.json'' [''{''] fs0 ''data/gym.json''
       = Some (OtherText ''old'')
   \<and> gym_to_dict gym0 = Inr snapshot0
   \<and> fst (save_gym gym0 ''data/gym.json'' [''{''] fs0) = Inr ()
   \<and> snd (save_gym gym0 ''data/gym.json'' [''{''] fs0) ''data/gym.json''
       = Some (JsonText (JDict [(''schema_version'', JInt 1), (''gym'', snapshot0)]))"
proof -
  have len: "(2::nat) < length (save_gym_steps gym0 ''data/gym.json'' [''{''])"
    by (simp add: save_gym_steps_Inr [OF gym_to_dict_gym0])
  note t = save_gym_replaces_atomically
             [of gym0 "''data/gym.json''" "[''{'']" fs0 snapshot0]
  from t len have 1: "stopped_after 2 gym0 ''data/gym.json'' [''{''] fs0 ''data/gym.json''
       = fs0 ''data/gym.json''"
    by blast
  from t gym_to_dict_gym0
  have 2: "save_gym gym0 ''data/gym.json'' [''{''] fs0
            = (Inr (), (stopped_after (length (save_gym_steps gym0 ''data/gym.json'' [''{'']) - 1)
                 gym0 ''data/gym.json'' [''{''] fs0)
                 (''data/gym.json'' \<mapsto> JsonText (JDict [(''schema_version'',
                     JInt CURRENT_SCHEMA_VERSION), (''gym'', snapshot0)]),
                  tmp_path ''data/gym.json'' := None))"
    by blast
  have 3: "snd (save_gym gym0 ''data/gym.json'' [''{''] fs0) ''data/gym.json''
       = Some (JsonText (JDict [(''schema_version'', JInt 1), (''gym'', snapshot0)]))"
    unfolding 2 by (simp add: CURRENT_SCHEMA_VERSION_def)
  have 4: "fst (save_gym gym0 ''data/gym.json'' [''{''] fs0) = Inr ()"
    unfolding 2 by simp
  from len 1 gym_to_dict_gym0 3 4 show ?thesis by (simp add: fs0_def)
qed

subsection \<open>Loading a file that is not a JSON document\<close>

text \<open>
  C6. \<open>load_gym\<close> does not raise ValidationError when the file's content is not a valid
  JSON document. The function reads and parses the file with no handler around the
  call, so whatever exception \<^verbatim>\<open>json.load\<close> raises on the file leaves \<open>load_gym\<close>
  unchanged, and none of them is a ValidationError: it is \<^verbatim>\<open>json.JSONDecodeError\<close> on
  a text that is not a JSON document, and UnicodeDecodeError on bytes that are not
  UTF-8.
\<close>

theorem load_gym_malformed_not_ValidationError:
  "fs p = Some f \<Longrightarrow> json_load f = Inl e \<Longrightarrow>
   load_gym lib fs p w = Inl e \<and> \<not> is_ValidationError e
   \<and> (e = JSONDecodeError \<or> e = UnicodeDecodeError)"
  by (cases f) (simp_all add: load_gym_def lift_def and_then_def)

theorem load_gym_malformed_not_ValidationError_witness:
  "json_load (OtherText ''{'') = Inl JSONDecodeError
   \<and> load_gym lib0 (Map.empty(''data/gym.json'' \<mapsto> OtherText ''{'')) ''data/gym.json'' world0
       = Inl JSONDecodeError
   \<and> \<not> is_ValidationError JSONDecodeError
   \<and> json_load (NotUtf8 [CHR 0xFF, CHR 0xFE]) = Inl UnicodeDecodeError
   \<and> load_gym lib0 (Map.empty(''data/gym.json'' \<mapsto> NotUtf8 [CHR 0xFF, CHR 0xFE]))
        ''data/gym.json'' world0
       = Inl UnicodeDecodeError
   \<and> \<not> is_ValidationError UnicodeDecodeError"
proof -
  have 1: "load_gym lib0 (Map.empty(''data/gym.json'' \<mapsto> OtherText ''{''))
             ''data/gym.json'' world0 = Inl JSONDecodeError
           \<and> \<not> is_ValidationError JSONDecodeError"
    using load_gym_malformed_not_ValidationError
            [where fs = "Map.empty(''data/gym.json'' \<mapsto> OtherText ''{'')"
               and p = "''data/gym.json''" and f = "OtherText ''{''"
               and e = JSONDecodeError and lib = lib0 and w = world0]
    by simp
  have 2: "load_gym lib0 (Map.empty(''data/gym.json'' \<mapsto> NotUtf8 [CHR 0xFF, CHR 0xFE]))
             ''data/gym.json'' world0 = Inl UnicodeDecodeError
           \<and> \<not> is_ValidationError UnicodeDecodeError"
    using load_gym_malformed_not_ValidationError
            [where fs = "Map.empty(''data/gym.json'' \<mapsto> NotUtf8 [CHR 0xFF, CHR 0xFE])"
               and p = "''data/gym.json''" and f = "NotUtf8 [CHR 0xFF, CHR 0xFE]"
               and e = UnicodeDecodeError and lib = lib0 and w = world0]
    by simp
  from 1 2 show ?thesis by simp
qed

end
